theory Spec2Isabelle
  imports Complex_Main "HOL-Library.Sublist"
begin

section \<open>JavaScript values and string primitives\<close>

text \<open>
  Strings are lists of 8-bit characters, so the model covers the Latin-1 part of
  JavaScript's UTF-16 strings; the line terminators U+2028 and U+2029 do not occur.
  The numbers among these values stand for themselves only: nothing computes with
  them. The numbers that \<^verbatim>\<open>dateTimeUtilsDuration\<close> subtracts are modelled below.
\<close>

datatype jsval =
    JUndefined
  | JNull
  | JBool bool
  | JNum real
  | JStr (the_string: string)
  | JObject

text \<open>\<^verbatim>\<open>s.startsWith(p)\<close>.\<close>

fun startsWith :: "string \<Rightarrow> string \<Rightarrow> bool" where
  "startsWith s [] = True"
| "startsWith [] (p # ps) = False"
| "startsWith (c # cs) (p # ps) = (c = p \<and> startsWith cs ps)"

text \<open>\<^verbatim>\<open>s.endsWith(e)\<close>.\<close>

definition endsWith :: "string \<Rightarrow> string \<Rightarrow> bool" where
  "endsWith s e = startsWith (rev s) (rev e)"

text \<open>\<^verbatim>\<open>s.indexOf(sub)\<close>: the first index at which \<open>sub\<close> occurs, or \<open>-1\<close>.\<close>

fun indexOf :: "string \<Rightarrow> string \<Rightarrow> int" where
  "indexOf [] sub = (if sub = [] then 0 else -1)"
| "indexOf (c # cs) sub =
     (if startsWith (c # cs) sub then 0
      else (let r = indexOf cs sub in if r = -1 then -1 else r + 1))"

text \<open>\<^verbatim>\<open>s.lastIndexOf(sub)\<close>: the last index at which \<open>sub\<close> occurs, or \<open>-1\<close>.\<close>

fun lastIndexOf :: "string \<Rightarrow> string \<Rightarrow> int" where
  "lastIndexOf [] sub = (if sub = [] then 0 else -1)"
| "lastIndexOf (c # cs) sub =
     (let r = lastIndexOf cs sub in
      if r \<noteq> -1 then r + 1
      else if startsWith (c # cs) sub then 0 else -1)"

text \<open>
  \<^verbatim>\<open>s.substring(a, b)\<close> and \<^verbatim>\<open>s.substring(a)\<close>: both indices are clamped to
  \<open>[0, length]\<close> and swapped when the first exceeds the second.
\<close>

definition substring :: "string \<Rightarrow> int \<Rightarrow> int \<Rightarrow> string" where
  "substring s a b =
     (let n = int (length s);
          a' = max 0 (min a n);
          b' = max 0 (min b n);
          lo = min a' b';
          hi = max a' b'
      in take (nat (hi - lo)) (drop (nat lo) s))"

definition substring_from :: "string \<Rightarrow> int \<Rightarrow> string" where
  "substring_from s a = substring s a (int (length s))"

text \<open>
  \<^verbatim>\<open>s.toLowerCase()\<close> on Latin-1: the letters A to Z and the accented capitals
  (U+00C0 to U+00DE, the multiplication sign U+00D7 apart) move up by 32.
\<close>

definition toLowerCase_char :: "char \<Rightarrow> char" where
  "toLowerCase_char c =
     (let n = (of_char c :: nat) in
      if (65 \<le> n \<and> n \<le> 90) \<or> (192 \<le> n \<and> n \<le> 214) \<or> (216 \<le> n \<and> n \<le> 222)
      then char_of (n + 32) else c)"

definition toLowerCase :: "string \<Rightarrow> string" where
  "toLowerCase s = map toLowerCase_char s"

text \<open>\<^verbatim>\<open>s.split(sep)\<close> for a separator of one character; the result is never empty.\<close>

fun split_char :: "char \<Rightarrow> string \<Rightarrow> string list" where
  "split_char sep [] = [[]]"
| "split_char sep (c # cs) =
     (if c = sep then [] # split_char sep cs
      else (case split_char sep cs of
              [] \<Rightarrow> [[c]]
            | w # ws \<Rightarrow> (c # w) # ws))"

text \<open>
  Modelled from the spec: \<^verbatim>\<open>isString\<close> and \<^verbatim>\<open>strEndsWith\<close> are imported from
  the core package, which is not among the sources. They are the type test
  \<^verbatim>\<open>typeof v === "string"\<close> and the suffix test, which is false when either
  string is empty.
\<close>

definition isString :: "jsval \<Rightarrow> bool" where
  "isString v = (case v of JStr _ \<Rightarrow> True | _ \<Rightarrow> False)"

definition strEndsWith :: "string \<Rightarrow> string \<Rightarrow> bool" where
  "strEndsWith v search = (v \<noteq> [] \<and> search \<noteq> [] \<and> endsWith v search)"


section \<open>Util.disallowsSameSiteNone\<close>

definition disallowsSameSiteNone :: "jsval \<Rightarrow> bool" where
  "disallowsSameSiteNone userAgent =
     (if \<not> isString userAgent then False
      else
        let ua = the_string userAgent in
        if indexOf ua ''CPU iPhone OS 12'' \<noteq> -1 \<or> indexOf ua ''iPad; CPU OS 12'' \<noteq> -1
        then True
        else if indexOf ua ''Macintosh; Intel Mac OS X 10_14'' \<noteq> -1
                \<and> indexOf ua ''Version/'' \<noteq> -1 \<and> indexOf ua ''Safari'' \<noteq> -1
        then True
        else if indexOf ua ''Macintosh; Intel Mac OS X 10_14'' \<noteq> -1
                \<and> strEndsWith ua ''AppleWebKit/605.1.15 (KHTML, like Gecko)''
        then True
        else if indexOf ua ''Chrome/5'' \<noteq> -1 \<or> indexOf ua ''Chrome/6'' \<noteq> -1
        then True
        else if indexOf ua ''UnrealEngine'' \<noteq> -1 \<and> indexOf ua ''Chrome'' = -1
        then True
        else if indexOf ua ''UCBrowser/12'' \<noteq> -1 \<or> indexOf ua ''UCBrowser/11'' \<noteq> -1
        then True
        else False)"


section \<open>dateTimeUtilsDuration\<close>

text \<open>
  A JavaScript number is a binary64 floating-point value: not-a-number, one of the two
  infinities, or a finite value. The finite values are modelled by the reals they
  denote, so the two zeros are one value; \<^verbatim>\<open>x !== 0\<close> does not tell them apart.
\<close>

datatype double = NaN | PInf | NInf | Fin real

text \<open>
  A value of TypeScript's type \<^verbatim>\<open>number\<close> as the code receives it without strict
  null checks: undefined, null or a number.
\<close>

datatype number = Undefined | Null | Number double

text \<open>
  Modelled from the spec: \<^verbatim>\<open>isNullOrUndefined\<close> is imported from the core package,
  which is not among the sources: the test for \<^verbatim>\<open>null\<close> or \<^verbatim>\<open>undefined\<close>.
\<close>

definition isNullOrUndefined :: "number \<Rightarrow> bool" where
  "isNullOrUndefined v = (v = Null \<or> v = Undefined)"

text \<open>
  The operator \<^verbatim>\<open>a - b\<close>: both operands are converted to numbers first, then
  subtracted as binary64 values. The difference of two finite values is their exact
  difference rounded to binary64; the rounding, which also decides when the result
  overflows to an infinity, is the parameter \<open>rnd\<close>.
\<close>

fun ToNumber :: "number \<Rightarrow> double" where
  "ToNumber Undefined = NaN"
| "ToNumber Null = Fin 0"
| "ToNumber (Number x) = x"

fun double_minus :: "(real \<Rightarrow> double) \<Rightarrow> double \<Rightarrow> double \<Rightarrow> double" where
  "double_minus rnd NaN y = NaN"
| "double_minus rnd PInf NaN = NaN"
| "double_minus rnd PInf PInf = NaN"
| "double_minus rnd PInf NInf = PInf"
| "double_minus rnd PInf (Fin y) = PInf"
| "double_minus rnd NInf NaN = NaN"
| "double_minus rnd NInf PInf = NInf"
| "double_minus rnd NInf NInf = NaN"
| "double_minus rnd NInf (Fin y) = NInf"
| "double_minus rnd (Fin x) NaN = NaN"
| "double_minus rnd (Fin x) PInf = NInf"
| "double_minus rnd (Fin x) NInf = PInf"
| "double_minus rnd (Fin x) (Fin y) = rnd (x - y)"

definition js_minus :: "(real \<Rightarrow> double) \<Rightarrow> number \<Rightarrow> number \<Rightarrow> number" where
  "js_minus rnd a b = Number (double_minus rnd (ToNumber a) (ToNumber b))"

definition dateTimeUtilsDuration :: "(real \<Rightarrow> double) \<Rightarrow> number \<Rightarrow> number \<Rightarrow> number" where
  "dateTimeUtilsDuration rnd start end' =
     (let result = Null in
      if start \<noteq> Number (Fin 0) \<and> end' \<noteq> Number (Fin 0)
         \<and> \<not> isNullOrUndefined start \<and> \<not> isNullOrUndefined end'
      then js_minus rnd end' start
      else result)"


section \<open>CorrelationIdHelper.getCorrelationContextValue\<close>

text \<open>
  The loop over the comma-separated pairs; \<open>None\<close> is the \<^verbatim>\<open>undefined\<close> the
  function returns when it falls off its end.
\<close>

fun getCorrelationContextValue_loop :: "string list \<Rightarrow> string \<Rightarrow> string option" where
  "getCorrelationContextValue_loop [] key = None"
| "getCorrelationContextValue_loop (kv # keyValues) key =
     (let keyValue = split_char CHR ''='' kv in
      if length keyValue = 2 \<and> keyValue ! 0 = key then Some (keyValue ! 1)
      else getCorrelationContextValue_loop keyValues key)"

definition getCorrelationContextValue :: "string \<Rightarrow> string \<Rightarrow> string option" where
  "getCorrelationContextValue responseHeader key =
     (if responseHeader \<noteq> [] then
        getCorrelationContextValue_loop (split_char CHR '','' responseHeader) key
      else None)"


section \<open>Program state, browser and logger\<close>

text \<open>An exception object: its name and its message.\<close>

datatype js_error = Exception string string

text \<open>
  The browser's \<^verbatim>\<open>Storage\<close> object. Each method acts on the browser's store, of
  type \<open>'st\<close>, and either returns (\<open>Inr\<close>) or throws (\<open>Inl\<close>); \<^verbatim>\<open>getItem\<close>
  returns \<open>None\<close> for \<^verbatim>\<open>null\<close>.
\<close>

record 'st storage =
  getItem :: "string \<Rightarrow> 'st \<Rightarrow> (js_error + string option) \<times> 'st"
  setItem :: "string \<Rightarrow> string \<Rightarrow> 'st \<Rightarrow> (js_error + unit) \<times> 'st"
  removeItem :: "string \<Rightarrow> 'st \<Rightarrow> (js_error + unit) \<times> 'st"

datatype StorageType = LocalStorage | SessionStorage

text \<open>
  The browser as the code sees it: whether \<^verbatim>\<open>getGlobal()\<close> yields an object, what
  \<^verbatim>\<open>getGlobalInst\<close> yields for the two storages (\<open>None\<close> when the lookup yields
  nothing or throws), the text of \<^verbatim>\<open>new Date\<close>, and, when the document can create
  elements, the \<^verbatim>\<open>host\<close> an anchor element reports once its \<^verbatim>\<open>href\<close> is set.
\<close>

record 'st browser =
  global_present :: bool
  localStorage :: "'st storage option"
  sessionStorage :: "'st storage option"
  date_string :: string
  createElement_host :: "(string \<Rightarrow> string) option"

text \<open>
  The module's mutable variables: \<^verbatim>\<open>_uaDisallowsSameSiteNone\<close>, the two flags of
  \<^verbatim>\<open>Util\<close> (\<open>None\<close> is \<^verbatim>\<open>undefined\<close>), the anchor cache of \<^verbatim>\<open>UrlHelper\<close>
  (which slots hold an element) with its index, and the browser's store.
\<close>

record 'st program_state =
  uaDisallowsSameSiteNone :: "bool option"
  canUseLocalStorage_flag :: "bool option"
  canUseSessionStorage_flag :: "bool option"
  htmlAnchorIdx :: nat
  htmlAnchorElement :: "bool list"
  store :: "'st"

datatype LoggingSeverity = CRITICAL | WARNING

datatype InternalMessageId =
    BrowserCannotReadLocalStorage
  | BrowserCannotWriteLocalStorage
  | BrowserFailedRemovalFromLocalStorage

text \<open>
  The logger is an argument of interface type \<^verbatim>\<open>IDiagnosticLogger\<close>, which is not
  among the sources: here its method \<^verbatim>\<open>throwInternal\<close>, which receives the severity,
  the message id and the message and either returns or throws.
\<close>

record logger =
  throwInternal :: "LoggingSeverity \<Rightarrow> InternalMessageId \<Rightarrow> string \<Rightarrow> js_error + unit"

text \<open>Modelled from the spec: \<^verbatim>\<open>getExceptionName\<close> of the core package, the name of an
  exception.\<close>

fun coreGetExceptionName :: "js_error \<Rightarrow> string" where
  "coreGetExceptionName (Exception n m) = n"


section \<open>Util: local storage\<close>

text \<open>
  \<^verbatim>\<open>Util._getVerifiedStorageObject\<close>: every exception inside is caught and yields
  \<^verbatim>\<open>null\<close>; calling a method of a missing storage object is such an exception.
\<close>

definition getVerifiedStorageObject ::
  "'st browser \<Rightarrow> StorageType \<Rightarrow> 'st program_state \<Rightarrow> 'st storage option \<times> 'st program_state" where
  "getVerifiedStorageObject env storageType s =
     (if \<not> global_present env then (None, s)
      else
        let uid = date_string env in
        case (if storageType = LocalStorage then localStorage env else sessionStorage env) of
          None \<Rightarrow> (None, s)
        | Some storage \<Rightarrow>
            (case setItem storage uid uid (store s) of
               (Inl e, st1) \<Rightarrow> (None, s\<lparr>store := st1\<rparr>)
             | (Inr _, st1) \<Rightarrow>
                 (case getItem storage uid st1 of
                    (Inl e, st2) \<Rightarrow> (None, s\<lparr>store := st2\<rparr>)
                  | (Inr v, st2) \<Rightarrow>
                      (let fail = (v \<noteq> Some uid) in
                       case removeItem storage uid st2 of
                         (Inl e, st3) \<Rightarrow> (None, s\<lparr>store := st3\<rparr>)
                       | (Inr _, st3) \<Rightarrow>
                           (if fail then None else Some storage, s\<lparr>store := st3\<rparr>)))))"

definition canUseLocalStorage ::
  "'st browser \<Rightarrow> 'st program_state \<Rightarrow> bool \<times> 'st program_state" where
  "canUseLocalStorage env s =
     (case canUseLocalStorage_flag s of
        None \<Rightarrow>
          (let (obj, s1) = getVerifiedStorageObject env LocalStorage s;
               b = (obj \<noteq> None)
           in (b, s1\<lparr>canUseLocalStorage_flag := Some b\<rparr>))
      | Some b \<Rightarrow> (b, s))"

definition getLocalStorageObject ::
  "'st browser \<Rightarrow> 'st program_state \<Rightarrow> 'st storage option \<times> 'st program_state" where
  "getLocalStorageObject env s =
     (let (b, s1) = canUseLocalStorage env s in
      if b then getVerifiedStorageObject env LocalStorage s1 else (None, s1))"

text \<open>
  \<^verbatim>\<open>Util.getStorage\<close>, \<^verbatim>\<open>Util.setStorage\<close> and \<^verbatim>\<open>Util.removeStorage\<close>. The call of
  the logger stands in the \<^verbatim>\<open>catch\<close> block, outside any \<^verbatim>\<open>try\<close>: when it throws,
  the function throws.
\<close>

definition getStorage ::
  "'st browser \<Rightarrow> logger \<Rightarrow> string \<Rightarrow> 'st program_state
     \<Rightarrow> (js_error + string option) \<times> 'st program_state" where
  "getStorage env lg name s =
     (let (storage, s1) = getLocalStorageObject env s in
      case storage of
        Some st \<Rightarrow>
          (case getItem st name (store s1) of
             (Inr v, b) \<Rightarrow> (Inr v, s1\<lparr>store := b\<rparr>)
           | (Inl e, b) \<Rightarrow>
               (let s2 = s1\<lparr>store := b, canUseLocalStorage_flag := Some False\<rparr> in
                case throwInternal lg WARNING BrowserCannotReadLocalStorage
                       (''Browser failed read of local storage. '' @ coreGetExceptionName e) of
                  Inl e' \<Rightarrow> (Inl e', s2)
                | Inr _ \<Rightarrow> (Inr None, s2)))
      | None \<Rightarrow> (Inr None, s1))"

definition setStorage ::
  "'st browser \<Rightarrow> logger \<Rightarrow> string \<Rightarrow> string \<Rightarrow> 'st program_state
     \<Rightarrow> (js_error + bool) \<times> 'st program_state" where
  "setStorage env lg name data s =
     (let (storage, s1) = getLocalStorageObject env s in
      case storage of
        Some st \<Rightarrow>
          (case setItem st name data (store s1) of
             (Inr _, b) \<Rightarrow> (Inr True, s1\<lparr>store := b\<rparr>)
           | (Inl e, b) \<Rightarrow>
               (let s2 = s1\<lparr>store := b, canUseLocalStorage_flag := Some False\<rparr> in
                case throwInternal lg WARNING BrowserCannotWriteLocalStorage
                       (''Browser failed write to local storage. '' @ coreGetExceptionName e) of
                  Inl e' \<Rightarrow> (Inl e', s2)
                | Inr _ \<Rightarrow> (Inr False, s2)))
      | None \<Rightarrow> (Inr False, s1))"

definition removeStorage ::
  "'st browser \<Rightarrow> logger \<Rightarrow> string \<Rightarrow> 'st program_state
     \<Rightarrow> (js_error + bool) \<times> 'st program_state" where
  "removeStorage env lg name s =
     (let (storage, s1) = getLocalStorageObject env s in
      case storage of
        Some st \<Rightarrow>
          (case removeItem st name (store s1) of
             (Inr _, b) \<Rightarrow> (Inr True, s1\<lparr>store := b\<rparr>)
           | (Inl e, b) \<Rightarrow>
               (let s2 = s1\<lparr>store := b, canUseLocalStorage_flag := Some False\<rparr> in
                case throwInternal lg WARNING BrowserFailedRemovalFromLocalStorage
                       (''Browser failed removal of local storage item. ''
                          @ coreGetExceptionName e) of
                  Inl e' \<Rightarrow> (Inl e', s2)
                | Inr _ \<Rightarrow> (Inr False, s2)))
      | None \<Rightarrow> (Inr False, s1))"


section \<open>UrlHelper\<close>

definition is_digit :: "char \<Rightarrow> bool" where
  "is_digit c = (let n = (of_char c :: nat) in 48 \<le> n \<and> n \<le> 57)"

text \<open>The class \<^verbatim>\<open>\w\<close>: letters, digits and the underscore.\<close>

definition is_word_char :: "char \<Rightarrow> bool" where
  "is_word_char c =
     (let n = (of_char c :: nat) in
      (48 \<le> n \<and> n \<le> 57) \<or> (65 \<le> n \<and> n \<le> 90) \<or> (97 \<le> n \<and> n \<le> 122) \<or> n = 95)"

text \<open>The characters that \<^verbatim>\<open>.\<close> does not match: line feed and carriage return.\<close>

definition is_line_terminator :: "char \<Rightarrow> bool" where
  "is_line_terminator c = (let n = (of_char c :: nat) in n = 10 \<or> n = 13)"

text \<open>The class \<^verbatim>\<open>[^/:]\<close>.\<close>

definition not_slash_colon :: "char \<Rightarrow> bool" where
  "not_slash_colon c = (c \<noteq> CHR ''/'' \<and> c \<noteq> CHR '':'')"

text \<open>
  The optional group \<^verbatim>\<open>(\:[\d]+)?\<close> at the head of the input: a colon and the longest
  run of digits, at least one; \<open>None\<close> when the group does not take part.
\<close>

definition match_port :: "string \<Rightarrow> string option" where
  "match_port r =
     (case r of
        [] \<Rightarrow> None
      | c # r' \<Rightarrow>
          if c = CHR '':'' \<and> takeWhile is_digit r' \<noteq> [] then Some (c # takeWhile is_digit r')
          else None)"

text \<open>
  The tail \<^verbatim>\<open>(.[^/:]+)(\:[\d]+)?\<close> at the head of the input, which both patterns
  share: one character of the line, the longest run outside \<^verbatim>\<open>/\<close> and \<^verbatim>\<open>:\<close>, at
  least one, then the optional port. The port is optional and ends the pattern, so the
  longest run is the match and nothing is given back.
\<close>

definition match_host_port :: "string \<Rightarrow> (string \<times> string option) option" where
  "match_host_port r =
     (case r of
        [] \<Rightarrow> None
      | c # r' \<Rightarrow>
          if is_line_terminator c then None
          else
            let h = takeWhile not_slash_colon r' in
            if h = [] then None
            else Some (c # h, match_port (dropWhile not_slash_colon r')))"

text \<open>
  \<^verbatim>\<open>/(\w*):\/\/(.[^/:]+)(\:[\d]+)?/i\<close> matched at the head of the input: the groups 1,
  2 and 3. A shorter run of word characters is followed by a word character, never by
  the colon, so only the longest run can match.
\<close>

definition fullHost_match_here :: "string \<Rightarrow> (string \<times> string \<times> string option) option" where
  "fullHost_match_here s =
     (let w = takeWhile is_word_char s;
          r = dropWhile is_word_char s
      in if startsWith r ''://'' then
           (case match_host_port (drop 3 r) of
              None \<Rightarrow> None
            | Some (h, p) \<Rightarrow> Some (w, h, p))
         else None)"

text \<open>\<^verbatim>\<open>url.match(...)\<close>: the match at the leftmost position that has one.\<close>

fun fullHost_match :: "string \<Rightarrow> (string \<times> string \<times> string option) option" where
  "fullHost_match [] = fullHost_match_here []"
| "fullHost_match (c # cs) =
     (case fullHost_match_here (c # cs) of
        Some m \<Rightarrow> Some m
      | None \<Rightarrow> fullHost_match cs)"

text \<open>
  \<^verbatim>\<open>UrlHelper.parseFullHost\<close>; \<open>None\<close> is \<^verbatim>\<open>null\<close>. A match has four entries, and
  its second group is a string.
\<close>

definition parseFullHost :: "string \<Rightarrow> bool \<Rightarrow> string option" where
  "parseFullHost url inclPort =
     (let result = None in
      if url \<noteq> [] then
        (case fullHost_match url of
           None \<Rightarrow> result
         | Some (m1, m2, m3) \<Rightarrow>
             if length m2 > 0 then
               (let result = m2 in
                if inclPort then
                  (let protocol = toLowerCase m1;
                       port = (case m3 of None \<Rightarrow> [] | Some p \<Rightarrow> p);
                       port = (if protocol = ''http'' \<and> port = '':80'' then []
                               else if protocol = ''https'' \<and> port = '':443'' then []
                               else port)
                   in Some (result @ port))
                else Some result)
             else result)
      else result)"

text \<open>
  The optional group \<^verbatim>\<open>(www[0-9]?\.)?\<close> at the head of the input, when it takes
  part: what follows it. The letters match in either case.
\<close>

definition match_www :: "string \<Rightarrow> string option" where
  "match_www s =
     (if length s \<ge> 3 \<and> toLowerCase (take 3 s) = ''www'' then
        (let r = drop 3 s;
             r' = (case r of [] \<Rightarrow> r | d # t \<Rightarrow> if is_digit d then t else r)
         in case r' of
              [] \<Rightarrow> None
            | c # t \<Rightarrow> if c = CHR ''.'' then Some t else None)
      else None)"

text \<open>
  \<^verbatim>\<open>/(www[0-9]?\.)?(.[^/:]+)(\:[\d]+)?/i\<close> matched at the head of the input: the
  groups 2 and 3. The first group is tried first; when the rest fails after it, the
  match is tried again without it.
\<close>

definition host_match_here :: "string \<Rightarrow> (string \<times> string option) option" where
  "host_match_here s =
     (case (case match_www s of None \<Rightarrow> None | Some r \<Rightarrow> match_host_port r) of
        Some m \<Rightarrow> Some m
      | None \<Rightarrow> match_host_port s)"

fun host_match :: "string \<Rightarrow> (string \<times> string option) option" where
  "host_match [] = host_match_here []"
| "host_match (c # cs) =
     (case host_match_here (c # cs) of
        Some m \<Rightarrow> Some m
      | None \<Rightarrow> host_match cs)"

text \<open>\<^verbatim>\<open>UrlHelper.parseHost\<close>.\<close>

definition parseHost :: "string \<Rightarrow> bool \<Rightarrow> string option" where
  "parseHost url inclPort =
     (let fullHost = parseFullHost url inclPort in
      case fullHost of
        None \<Rightarrow> fullHost
      | Some fh \<Rightarrow>
          if fh \<noteq> [] then
            (case host_match fh of
               None \<Rightarrow> fullHost
             | Some (m2, m3) \<Rightarrow>
                 if length m2 > 0 then Some (m2 @ (case m3 of None \<Rightarrow> [] | Some p \<Rightarrow> p))
                 else fullHost)
          else fullHost)"

text \<open>
  \<^verbatim>\<open>UrlHelper.parseUrl\<close>: the \<^verbatim>\<open>host\<close> of the anchor it returns (\<open>None\<close> is
  \<^verbatim>\<open>null\<close>), and the state with the cache slot filled and the index moved forward.
  Without \<^verbatim>\<open>createElement\<close> the anchor is a fresh object whose host comes from
  \<^verbatim>\<open>parseHost\<close>; with it, the browser resolves the \<^verbatim>\<open>href\<close>.
\<close>

definition parseUrl ::
  "'st browser \<Rightarrow> string \<Rightarrow> 'st program_state \<Rightarrow> string option \<times> 'st program_state" where
  "parseUrl env url s =
     (let anchorIdx = htmlAnchorIdx s;
          anchorCache = htmlAnchorElement s;
          (host, anchorCache) =
             (case createElement_host env of
                None \<Rightarrow> (parseHost url True, anchorCache)
              | Some resolve \<Rightarrow> (Some (resolve url), anchorCache[anchorIdx := True]));
          anchorIdx = anchorIdx + 1;
          anchorIdx = (if anchorIdx \<ge> length anchorCache then 0 else anchorIdx)
      in (host, s\<lparr>htmlAnchorIdx := anchorIdx, htmlAnchorElement := anchorCache\<rparr>))"


section \<open>Regular expressions built from domain globs\<close>

text \<open>
  \<^verbatim>\<open>new RegExp(source)\<close> for the sources the domain lists produce: characters that
  stand for themselves, the dot, and the star after either. A star with nothing to
  repeat is a syntax error. Any other operator of the regular expression syntax is
  outside the fragment modelled here, and reported as such.
\<close>

datatype rx_atom = Lit char | AnyChar

datatype rx_item = One rx_atom | Star rx_atom

datatype rx_error = SyntaxError | Unmodelled

definition rx_special :: "char \<Rightarrow> bool" where
  "rx_special c = (c = CHR 0x5C \<or> c \<in> set ''^$+?()[]{}|'')"

fun RegExp_new :: "string \<Rightarrow> rx_error + rx_item list" where
  "RegExp_new [] = Inr []"
| "RegExp_new (c # cs) =
     (if c = CHR ''*'' then Inl SyntaxError
      else if rx_special c then Inl Unmodelled
      else
        let a = (if c = CHR ''.'' then AnyChar else Lit c) in
        case cs of
          [] \<Rightarrow> Inr [One a]
        | d # ds \<Rightarrow>
            if d = CHR ''*'' then
              (case RegExp_new ds of Inl e \<Rightarrow> Inl e | Inr r \<Rightarrow> Inr (Star a # r))
            else
              (case RegExp_new cs of Inl e \<Rightarrow> Inl e | Inr r \<Rightarrow> Inr (One a # r)))"

fun atom_matches :: "rx_atom \<Rightarrow> char \<Rightarrow> bool" where
  "atom_matches (Lit c) x = (x = c)"
| "atom_matches AnyChar x = (\<not> is_line_terminator x)"

text \<open>Whether the items match a prefix of the input.\<close>

fun rx_match_here :: "rx_item list \<Rightarrow> string \<Rightarrow> bool" where
  "rx_match_here [] s = True"
| "rx_match_here (One a # r) [] = False"
| "rx_match_here (One a # r) (x # xs) = (atom_matches a x \<and> rx_match_here r xs)"
| "rx_match_here (Star a # r) [] = rx_match_here r []"
| "rx_match_here (Star a # r) (x # xs) =
     ((atom_matches a x \<and> rx_match_here (Star a # r) xs) \<or> rx_match_here r (x # xs))"

text \<open>\<^verbatim>\<open>regex.test(s)\<close>: a match at some position of the input.\<close>

fun RegExp_test :: "rx_item list \<Rightarrow> string \<Rightarrow> bool" where
  "RegExp_test r [] = rx_match_here r []"
| "RegExp_test r (x # xs) = (rx_match_here r (x # xs) \<or> RegExp_test r xs)"

text \<open>
  \<^verbatim>\<open>s.replace(/\./g, "\.")\<close> and \<^verbatim>\<open>s.replace(/\*/g, ".*")\<close>. In a string literal
  the escape \<^verbatim>\<open>"\."\<close> is the one character \<^verbatim>\<open>"."\<close>: the first replacement puts a
  dot where a dot was.
\<close>

definition replace_dots :: "string \<Rightarrow> string" where
  "replace_dots s = concat (map (\<lambda>c. if c = CHR ''.'' then ''.'' else [c]) s)"

definition replace_stars :: "string \<Rightarrow> string" where
  "replace_stars s = concat (map (\<lambda>c. if c = CHR ''*'' then ''.*'' else [c]) s)"

definition domain_regex :: "string \<Rightarrow> rx_error + rx_item list" where
  "domain_regex domain = RegExp_new (replace_stars (replace_dots (toLowerCase domain)))"


section \<open>CorrelationIdHelper.canIncludeCorrelationHeader\<close>

text \<open>
  The fields of \<^verbatim>\<open>ICorrelationConfig\<close> that the function reads; the interface is not
  among the sources. A list that is \<open>None\<close> is absent from the configuration. An
  exclude pattern is a regular expression object, taken here as its \<^verbatim>\<open>test\<close> on a
  string (a pattern without the global and sticky flags, whose test keeps no position).
\<close>

record ICorrelationConfig =
  enableCorsCorrelation :: bool
  correlationHeaderExcludedDomains :: "string list option"
  correlationHeaderExcludePatterns :: "(string \<Rightarrow> bool) list option"
  disableCorrelationHeaders :: bool
  correlationHeaderDomains :: "string list option"

text \<open>
  How a call ends other than by returning: it throws, or it leaves the fragment of
  regular expressions modelled above.
\<close>

datatype abort = Throws js_error | OutsideModel

definition domain_regex_or_abort :: "string \<Rightarrow> abort + rx_item list" where
  "domain_regex_or_abort domain =
     (case domain_regex domain of
        Inl SyntaxError \<Rightarrow> Inl (Throws (Exception ''SyntaxError'' ''Nothing to repeat''))
      | Inl Unmodelled \<Rightarrow> Inl OutsideModel
      | Inr regex \<Rightarrow> Inr regex)"

text \<open>
  Modelled from the spec: \<^verbatim>\<open>arrForEach\<close> of the core package, not among the sources,
  calls the callback on each element in order. The callback over the included domains
  builds the regular expression of every domain and updates \<^verbatim>\<open>matchExists\<close>, which
  starts as \<^verbatim>\<open>undefined\<close> (\<open>None\<close>).
\<close>

fun includedDomains_forEach :: "string list \<Rightarrow> string \<Rightarrow> bool option \<Rightarrow> abort + bool option" where
  "includedDomains_forEach [] requestHost matchExists = Inr matchExists"
| "includedDomains_forEach (domain # domains) requestHost matchExists =
     (case domain_regex_or_abort domain of
        Inl a \<Rightarrow> Inl a
      | Inr regex \<Rightarrow>
          includedDomains_forEach domains requestHost
            (if matchExists = Some True then matchExists
             else Some (RegExp_test regex requestHost)))"

text \<open>The loop over the excluded domains: whether it returned \<^verbatim>\<open>false\<close> on a match.\<close>

fun excludedDomains_loop :: "string list \<Rightarrow> string \<Rightarrow> abort + bool" where
  "excludedDomains_loop [] requestHost = Inr False"
| "excludedDomains_loop (domain # domains) requestHost =
     (case domain_regex_or_abort domain of
        Inl a \<Rightarrow> Inl a
      | Inr regex \<Rightarrow>
          if RegExp_test regex requestHost then Inr True
          else excludedDomains_loop domains requestHost)"

text \<open>
  The second half of the function, from \<^verbatim>\<open>includedDomains\<close> on. The last line
  returns the value of \<^verbatim>\<open>requestHost && requestHost.length > 0\<close>, which is the
  empty string itself when \<^verbatim>\<open>requestHost\<close> is empty.
\<close>

definition canInclude_by_domains :: "ICorrelationConfig option \<Rightarrow> string \<Rightarrow> abort + jsval" where
  "canInclude_by_domains config requestHost =
     (let includedDomains = (case config of None \<Rightarrow> None | Some c \<Rightarrow> correlationHeaderDomains c);
          matchExists =
            (case includedDomains of
               None \<Rightarrow> Inr None
             | Some domains \<Rightarrow> includedDomains_forEach domains requestHost None)
      in case matchExists of
           Inl a \<Rightarrow> Inl a
         | Inr m \<Rightarrow>
             if includedDomains \<noteq> None \<and> m \<noteq> Some True then Inr (JBool False)
             else
               let excludedDomains =
                     (case config of None \<Rightarrow> None | Some c \<Rightarrow> correlationHeaderExcludedDomains c)
               in (case excludedDomains of
                     None \<Rightarrow> Inr (JBool True)
                   | Some domains \<Rightarrow>
                       if length domains = 0 then Inr (JBool True)
                       else
                         (case excludedDomains_loop domains requestHost of
                            Inl a \<Rightarrow> Inl a
                          | Inr matched \<Rightarrow>
                              if matched then Inr (JBool False)
                              else if requestHost = [] then Inr (JStr requestHost)
                              else Inr (JBool (length requestHost > 0)))))"

definition canIncludeCorrelationHeader ::
  "'st browser \<Rightarrow> ICorrelationConfig option \<Rightarrow> string \<Rightarrow> string option \<Rightarrow> 'st program_state
     \<Rightarrow> (abort + jsval) \<times> 'st program_state" where
  "canIncludeCorrelationHeader env config requestUrl currentHost s =
     (if requestUrl = [] \<or> (case config of None \<Rightarrow> False | Some c \<Rightarrow> disableCorrelationHeaders c)
      then (Inr (JBool False), s)
      else if (case config of
                 None \<Rightarrow> False
               | Some c \<Rightarrow>
                   (case correlationHeaderExcludePatterns c of
                      None \<Rightarrow> False
                    | Some patterns \<Rightarrow> list_ex (\<lambda>pattern. pattern requestUrl) patterns))
      then (Inr (JBool False), s)
      else
        let (anchorHost, s1) = parseUrl env requestUrl s in
        case anchorHost of
          None \<Rightarrow>
            (Inl (Throws (Exception ''TypeError'' ''Cannot read properties of null'')), s1)
        | Some h \<Rightarrow>
            (let requestHost = toLowerCase h;
                 requestHost =
                   (if requestHost \<noteq> []
                       \<and> (indexOf requestHost '':443'' \<noteq> -1 \<or> indexOf requestHost '':80'' \<noteq> -1)
                    then toLowerCase
                           (case parseFullHost requestUrl True of None \<Rightarrow> [] | Some fh \<Rightarrow> fh)
                    else requestHost)
             in if (case config of None \<Rightarrow> True | Some c \<Rightarrow> \<not> enableCorsCorrelation c)
                   \<and> Some requestHost \<noteq> currentHost
                then (Inr (JBool False), s1)
                else (canInclude_by_domains config requestHost, s1)))"


section \<open>generateIntegrityFile.js: getFilename\<close>

text \<open>
  The tail \<^verbatim>\<open>(\..*js)$\<close> at the head of the input: a dot, then characters of the
  line, with \<^verbatim>\<open>js\<close> at the end of the input.
\<close>

definition match_dot_any_js :: "string \<Rightarrow> bool" where
  "match_dot_any_js r =
     (case r of
        [] \<Rightarrow> False
      | c # t \<Rightarrow>
          c = CHR ''.'' \<and> list_all (\<lambda>x. \<not> is_line_terminator x) t \<and> endsWith t ''js'')"

text \<open>
  \<^verbatim>\<open>isVersioned = /^(.*\d)(\..*js)$/\<close>, of which the code uses only whether it
  matches: characters of the line, a digit, and the tail.
\<close>

fun isVersioned_test :: "string \<Rightarrow> bool" where
  "isVersioned_test [] = False"
| "isVersioned_test (c # cs) =
     ((is_digit c \<and> match_dot_any_js cs) \<or> (\<not> is_line_terminator c \<and> isVersioned_test cs))"

text \<open>
  \<^verbatim>\<open>\d{1,3}\<close> before a dot: the whole run of digits, of length one to three, since a
  shorter run is followed by a digit. The result is the run and the rest, which starts
  with the dot.
\<close>

definition match_version_number :: "string \<Rightarrow> (string \<times> string) option" where
  "match_version_number r =
     (let d = takeWhile is_digit r; rest = dropWhile is_digit r in
      if 1 \<le> length d \<and> length d \<le> 3 \<and> startsWith rest ''.'' then Some (d, rest) else None)"

text \<open>
  \<^verbatim>\<open>extractFilename = /^([^\d]*(\.\d{1,3}\.\d{1,3}\.\d{1,3}))(\..*js)$/\<close>: the
  match as the array \<^verbatim>\<open>exec\<close> returns, its entries 0 to 3. The run of characters
  that are not digits stops before the first digit, so its last character is the dot of
  the version.
\<close>

definition extractFilename_exec :: "string \<Rightarrow> (string \<times> string \<times> string \<times> string) option" where
  "extractFilename_exec s =
     (let p = takeWhile (\<lambda>c. \<not> is_digit c) s; r1 = dropWhile (\<lambda>c. \<not> is_digit c) s in
      if p \<noteq> [] \<and> last p = CHR ''.'' then
        (case match_version_number r1 of
           None \<Rightarrow> None
         | Some (d1, r2) \<Rightarrow>
             (case match_version_number (drop 1 r2) of
                None \<Rightarrow> None
              | Some (d2, r3) \<Rightarrow>
                  (case match_version_number (drop 1 r3) of
                     None \<Rightarrow> None
                   | Some (d3, r4) \<Rightarrow>
                       if match_dot_any_js r4 then
                         (let ver = ''.'' @ d1 @ ''.'' @ d2 @ ''.'' @ d3 in
                          Some (s, butlast p @ ver, ver, r4))
                       else None)))
      else None)"

text \<open>The first lines of \<^verbatim>\<open>getFilename\<close>: the path and the file name.\<close>

definition split_path :: "string \<Rightarrow> string \<times> string" where
  "split_path inputFile =
     (let pos = lastIndexOf inputFile ''/'';
          pos = (if pos = -1 then lastIndexOf inputFile [CHR 0x5C] else pos)
      in if pos \<noteq> -1 then (substring inputFile 0 pos, substring_from inputFile (pos + 1))
         else ([], inputFile))"

text \<open>
  The middle of \<^verbatim>\<open>getFilename\<close>: the variables \<^verbatim>\<open>module\<close> and \<^verbatim>\<open>match\<close> after
  the three ways to find a match (package version, regular expression, extension). A
  match is the array with the raw file, the integrity file group, the version group
  and the format group.
\<close>

definition getFilename_match ::
  "string \<Rightarrow> string \<Rightarrow> string \<Rightarrow> string
     \<Rightarrow> string \<times> (string \<times> string \<times> string \<times> string) option" where
  "getFilename_match inputFile packageVersion path filename =
     (let verIdx = indexOf filename (''.'' @ packageVersion) in
      if verIdx \<noteq> -1 then
        (let verIdx = verIdx + (int (length packageVersion) + 1);
             module = substring filename 0 verIdx
         in (module,
             Some (inputFile, path @ ''/'' @ module, packageVersion,
                   substring_from filename (verIdx + 1))))
      else if isVersioned_test inputFile then (filename, extractFilename_exec inputFile)
      else if endsWith filename ''.js'' then
        (let idx = indexOf filename ''.'' in
         if idx \<noteq> -1 then
           (let module = substring filename 0 idx in
            (module,
             Some (inputFile, path @ ''/'' @ module, packageVersion,
                   substring_from filename (idx + 1))))
         else (filename, None))
      else (filename, None))"

text \<open>What \<^verbatim>\<open>getFilename\<close> returns: the bare name, or the five fields.\<close>

record file_names =
  name :: string
  module :: string
  version :: string
  format :: string
  intFile :: string

datatype filename_result = NameOnly string | Names file_names

definition getFilename :: "string \<Rightarrow> string \<Rightarrow> filename_result" where
  "getFilename inputFile packageVersion =
     (let (path, filename) = split_path inputFile;
          (module', match) = getFilename_match inputFile packageVersion path filename
      in case match of
           None \<Rightarrow> NameOnly filename
         | Some (raw, intFile', version', format') \<Rightarrow>
             if version' \<noteq> [] then
               (let version' = (if startsWith version' ''.'' then substring_from version' 1
                                else version')
                in if version' = packageVersion then
                     (let idx = lastIndexOf filename (''.'' @ version');
                          module' = (if idx \<noteq> -1 then substring filename 0 idx else module');
                          format' = (if startsWith format' ''.'' then substring_from format' 1
                                     else format')
                      in Names \<lparr> name = filename, module = module', version = version',
                                  format = format', intFile = intFile' @ ''.integrity.json'' \<rparr>)
                   else NameOnly filename)
             else NameOnly filename)"


section \<open>generateIntegrityFile.js: processPath\<close>

text \<open>
  What the script reads from outside: the files \<^verbatim>\<open>globby.sync\<close> lists for a pattern,
  the text \<^verbatim>\<open>fs.readFileSync\<close> reads, and the digest in base64 that the
  \<^verbatim>\<open>crypto\<close> module computes for an algorithm and a source.
\<close>

record build_env =
  globby_sync :: "string \<Rightarrow> string list"
  readFileSync :: "string \<Rightarrow> string"
  digest_base64 :: "string \<Rightarrow> string \<Rightarrow> string"

definition calculateHash :: "build_env \<Rightarrow> string \<Rightarrow> string \<Rightarrow> string" where
  "calculateHash env source algorithm = digest_base64 env algorithm source"

record hashes =
  sha256 :: string
  sha384 :: string
  sha512 :: string

record file_details =
  fd_file :: string
  fd_type :: string
  fd_integrity :: string
  fd_hashes :: hashes

text \<open>
  An integrity record of the cache: \<^verbatim>\<open>name\<close>, \<^verbatim>\<open>version\<close> (absent when \<open>None\<close>)
  and \<^verbatim>\<open>ext\<close>, the details by extension key; an absent \<^verbatim>\<open>ext\<close> is the empty
  map.
\<close>

record integrity_json =
  ij_name :: string
  ij_version :: "string option"
  ij_ext :: "string \<rightharpoonup> file_details"

type_synonym integrity_cache = "string \<rightharpoonup> integrity_json"

text \<open>How \<^verbatim>\<open>+\<close> prints a version that may be \<^verbatim>\<open>undefined\<close>.\<close>

definition show_version :: "string option \<Rightarrow> string" where
  "show_version v = (case v of None \<Rightarrow> ''undefined'' | Some x \<Rightarrow> x)"

text \<open>
  The body of the callback of \<^verbatim>\<open>files.map\<close>: one file. The record is an object
  shared with the cache, so what the last lines write to it is written to the cache.
\<close>

definition processFile ::
  "build_env \<Rightarrow> integrity_cache \<Rightarrow> string \<Rightarrow> string \<Rightarrow> js_error + integrity_cache" where
  "processFile env integrityCache inputFile version' =
     (case getFilename inputFile version' of
        NameOnly n \<Rightarrow> Inr integrityCache
      | Names names \<Rightarrow>
          if intFile names \<noteq> [] then
            (let src = readFileSync env inputFile;
                 hash256 = calculateHash env src ''sha256'';
                 hash384 = calculateHash env src ''sha384'';
                 hash512 = calculateHash env src ''sha512'';
                 integrityJson =
                   (case integrityCache (intFile names) of
                      None \<Rightarrow>
                        Inr \<lparr> ij_name = module names,
                              ij_version = (if version names \<noteq> [] then Some (version names)
                                            else None),
                              ij_ext = Map.empty \<rparr>
                    | Some cached \<Rightarrow>
                        if ij_name cached \<noteq> module names then
                          Inl (Exception ''Error''
                                 (''Error! - Module name ['' @ ij_name cached
                                    @ ''] does not match expected ['' @ module names @ '']''))
                        else if version names \<noteq> [] \<and> ij_version cached \<noteq> Some (version names)
                        then
                          Inl (Exception ''Error''
                                 (''Error! - Module version ['' @ show_version (ij_version cached)
                                    @ ''] does not match expected ['' @ version names @ '']''))
                        else Inr cached)
             in case integrityJson of
                  Inl e \<Rightarrow> Inl e
                | Inr integrityJson \<Rightarrow>
                    (let name' = ''@'' @ format names;
                         fileDetails =
                           \<lparr> fd_file = name names,
                             fd_type = ''text/javascript; charset=utf-8'',
                             fd_integrity =
                               ''sha256-'' @ hash256 @ '' sha384-'' @ hash384
                                 @ '' sha512-'' @ hash512,
                             fd_hashes =
                               \<lparr> sha256 = hash256, sha384 = hash384, sha512 = hash512 \<rparr> \<rparr>
                     in Inr (integrityCache
                               (intFile names \<mapsto>
                                  integrityJson
                                    \<lparr> ij_ext := (ij_ext integrityJson)(name' \<mapsto> fileDetails) \<rparr>))))
          else Inr integrityCache)"

text \<open>The files in order; the first exception ends the run.\<close>

fun processFiles ::
  "build_env \<Rightarrow> integrity_cache \<Rightarrow> string list \<Rightarrow> string \<Rightarrow> js_error + integrity_cache" where
  "processFiles env integrityCache [] version' = Inr integrityCache"
| "processFiles env integrityCache (inputFile # files) version' =
     (case processFile env integrityCache inputFile version' of
        Inl e \<Rightarrow> Inl e
      | Inr integrityCache' \<Rightarrow> processFiles env integrityCache' files version')"

definition processPath ::
  "build_env \<Rightarrow> integrity_cache \<Rightarrow> string \<Rightarrow> string \<Rightarrow> js_error + integrity_cache" where
  "processPath env integrityCache path version' =
     (let files = globby_sync env path in processFiles env integrityCache files version')"


section \<open>The bodies of the pure helpers as programs\<close>

text \<open>
  The statements of \<open>disallowsSameSiteNone\<close>, \<open>getCorrelationContextValue\<close> and
  \<open>dateTimeUtilsDuration\<close> as data, with the meaning of a statement in a program state:
  what a body reads and writes is then read off the body. The values are those of
  JavaScript that the three bodies meet.
\<close>

datatype val =
    VUndefined
  | VNull
  | VBool bool
  | VNum double
  | VStr string
  | VArr "val list"
  | VObject

text \<open>The calls and operators of the three bodies.\<close>

datatype prim1 = IsString | IsNullOrUndefined | Length

datatype prim2 = IndexOf | Split | StrEndsWith | Index | StrictEq | StrictNe | Minus

text \<open>
  An expression: a constant, a parameter or local variable, a variable of the module
  (read from the program state, of type \<open>'g\<close>), \<^verbatim>\<open>!a\<close>, \<^verbatim>\<open>a && b\<close>,
  \<^verbatim>\<open>a || b\<close>, or a call or operator.
\<close>

datatype 'g expr =
    Val val
  | Var string
  | Read "'g \<Rightarrow> val"
  | Neg "'g expr"
  | AndAlso "'g expr" "'g expr"
  | OrElse "'g expr" "'g expr"
  | Prim1 prim1 "'g expr"
  | Prim2 prim2 "'g expr" "'g expr"

text \<open>
  A statement. \<open>Assign\<close> declares or assigns a local variable and \<open>Write\<close> assigns a
  variable of the module. \<open>ForIndex i a body\<close> is the loop
  \<^verbatim>\<open>for (let i = 0; i < a.length; ++i) body\<close> over an array that the body does not
  change, as it does not change \<^verbatim>\<open>i\<close>: the body runs for the indices of the array
  in order.
\<close>

datatype 'g stmt =
    Skip
  | Seq "'g stmt" "'g stmt"
  | IfThen "'g expr" "'g stmt"
  | ForIndex string "'g expr" "'g stmt"
  | Return "'g expr"
  | Assign string "'g expr"
  | Write "val \<Rightarrow> 'g \<Rightarrow> 'g" "'g expr"

text \<open>Whether a value counts as true in a condition.\<close>

fun truthy :: "val \<Rightarrow> bool" where
  "truthy VUndefined = False"
| "truthy VNull = False"
| "truthy (VBool b) = b"
| "truthy (VNum d) = (d \<noteq> NaN \<and> d \<noteq> Fin 0)"
| "truthy (VStr s) = (s \<noteq> [])"
| "truthy (VArr xs) = True"
| "truthy VObject = True"

definition TypeError :: abort where
  "TypeError = Throws (Exception ''TypeError'' [])"

text \<open>
  \<^verbatim>\<open>isString(v)\<close>, \<^verbatim>\<open>isNullOrUndefined(v)\<close> and \<^verbatim>\<open>v.length\<close>. Reading a property
  of \<^verbatim>\<open>undefined\<close> or \<^verbatim>\<open>null\<close> throws.
\<close>

fun apply1 :: "prim1 \<Rightarrow> val \<Rightarrow> abort + val" where
  "apply1 IsString v = Inr (VBool (case v of VStr s \<Rightarrow> True | _ \<Rightarrow> False))"
| "apply1 IsNullOrUndefined v = Inr (VBool (v = VNull \<or> v = VUndefined))"
| "apply1 Length v =
     (case v of
        VStr s \<Rightarrow> Inr (VNum (Fin (real (length s))))
      | VArr xs \<Rightarrow> Inr (VNum (Fin (real (length xs))))
      | VUndefined \<Rightarrow> Inl TypeError
      | VNull \<Rightarrow> Inl TypeError
      | _ \<Rightarrow> Inr VUndefined)"

text \<open>
  \<^verbatim>\<open>a === b\<close> on values other than two objects; two objects are equal when they are
  the same object, which the values do not record.
\<close>

definition strict_equal :: "val \<Rightarrow> val \<Rightarrow> abort + bool" where
  "strict_equal a b =
     (case (a, b) of
        (VArr xs, VArr ys) \<Rightarrow> Inl OutsideModel
      | (VObject, VObject) \<Rightarrow> Inl OutsideModel
      | (VNum x, VNum y) \<Rightarrow> Inr (x = y \<and> x \<noteq> NaN)
      | _ \<Rightarrow> Inr (a = b))"

text \<open>The values that \<^verbatim>\<open>a - b\<close> takes without parsing a string, as numbers.\<close>

fun number_of :: "val \<Rightarrow> number option" where
  "number_of VUndefined = Some Undefined"
| "number_of VNull = Some Null"
| "number_of (VNum d) = Some (Number d)"
| "number_of v = None"

fun val_of_number :: "number \<Rightarrow> val" where
  "val_of_number Undefined = VUndefined"
| "val_of_number Null = VNull"
| "val_of_number (Number d) = VNum d"

text \<open>
  \<^verbatim>\<open>a.indexOf(b)\<close>, \<^verbatim>\<open>a.split(b)\<close> for a separator of one character,
  \<^verbatim>\<open>strEndsWith(a, b)\<close>, \<^verbatim>\<open>a[b]\<close>, \<^verbatim>\<open>a === b\<close>, \<^verbatim>\<open>a !== b\<close> and
  \<^verbatim>\<open>a - b\<close>, on the values the bodies apply them to; on other values the result is
  outside the model.
\<close>

fun apply2 :: "(real \<Rightarrow> double) \<Rightarrow> prim2 \<Rightarrow> val \<Rightarrow> val \<Rightarrow> abort + val" where
  "apply2 rnd IndexOf a b =
     (case (a, b) of
        (VStr s, VStr sub) \<Rightarrow> Inr (VNum (Fin (real_of_int (indexOf s sub))))
      | (VUndefined, _) \<Rightarrow> Inl TypeError
      | (VNull, _) \<Rightarrow> Inl TypeError
      | _ \<Rightarrow> Inl OutsideModel)"
| "apply2 rnd Split a b =
     (case (a, b) of
        (VStr s, VStr [c]) \<Rightarrow> Inr (VArr (map VStr (split_char c s)))
      | (VUndefined, _) \<Rightarrow> Inl TypeError
      | (VNull, _) \<Rightarrow> Inl TypeError
      | _ \<Rightarrow> Inl OutsideModel)"
| "apply2 rnd StrEndsWith a b =
     (case (a, b) of
        (VStr v, VStr search) \<Rightarrow> Inr (VBool (strEndsWith v search))
      | _ \<Rightarrow> Inl OutsideModel)"
| "apply2 rnd Index a b =
     (case (a, b) of
        (VArr xs, VNum (Fin r)) \<Rightarrow>
          Inr (if 0 \<le> r \<and> r = real_of_int \<lfloor>r\<rfloor> \<and> nat \<lfloor>r\<rfloor> < length xs
               then xs ! nat \<lfloor>r\<rfloor> else VUndefined)
      | (VUndefined, _) \<Rightarrow> Inl TypeError
      | (VNull, _) \<Rightarrow> Inl TypeError
      | _ \<Rightarrow> Inl OutsideModel)"
| "apply2 rnd StrictEq a b =
     (case strict_equal a b of Inl x \<Rightarrow> Inl x | Inr r \<Rightarrow> Inr (VBool r))"
| "apply2 rnd StrictNe a b =
     (case strict_equal a b of Inl x \<Rightarrow> Inl x | Inr r \<Rightarrow> Inr (VBool (\<not> r)))"
| "apply2 rnd Minus a b =
     (case (number_of a, number_of b) of
        (Some x, Some y) \<Rightarrow> Inr (val_of_number (js_minus rnd x y))
      | _ \<Rightarrow> Inl OutsideModel)"

text \<open>
  The value of an expression, given the parameters and locals \<open>l\<close> and the program
  state \<open>g\<close>; \<^verbatim>\<open>a && b\<close> and \<^verbatim>\<open>a || b\<close> evaluate \<open>b\<close> only when \<open>a\<close> does not
  decide, and yield the value that decided.
\<close>

primrec evaluate ::
  "(real \<Rightarrow> double) \<Rightarrow> 'g expr \<Rightarrow> (string \<Rightarrow> val) \<Rightarrow> 'g \<Rightarrow> abort + val" where
  "evaluate rnd (Val v) l g = Inr v"
| "evaluate rnd (Var x) l g = Inr (l x)"
| "evaluate rnd (Read r) l g = Inr (r g)"
| "evaluate rnd (Neg e) l g =
     (case evaluate rnd e l g of Inl x \<Rightarrow> Inl x | Inr v \<Rightarrow> Inr (VBool (\<not> truthy v)))"
| "evaluate rnd (AndAlso a b) l g =
     (case evaluate rnd a l g of
        Inl x \<Rightarrow> Inl x
      | Inr v \<Rightarrow> if truthy v then evaluate rnd b l g else Inr v)"
| "evaluate rnd (OrElse a b) l g =
     (case evaluate rnd a l g of
        Inl x \<Rightarrow> Inl x
      | Inr v \<Rightarrow> if truthy v then Inr v else evaluate rnd b l g)"
| "evaluate rnd (Prim1 p e) l g =
     (case evaluate rnd e l g of Inl x \<Rightarrow> Inl x | Inr v \<Rightarrow> apply1 p v)"
| "evaluate rnd (Prim2 p a b) l g =
     (case evaluate rnd a l g of
        Inl x \<Rightarrow> Inl x
      | Inr v \<Rightarrow>
          (case evaluate rnd b l g of Inl x \<Rightarrow> Inl x | Inr w \<Rightarrow> apply2 rnd p v w))"

text \<open>
  How a statement ends: it goes on to the next statement, it returns from the function,
  or it throws; in each case with the program state it leaves.
\<close>

datatype 'g outcome =
    Normal "string \<Rightarrow> val" 'g
  | Returned val 'g
  | Aborted abort 'g

primrec execute ::
  "(real \<Rightarrow> double) \<Rightarrow> 'g stmt \<Rightarrow> (string \<Rightarrow> val) \<Rightarrow> 'g \<Rightarrow> 'g outcome" where
  "execute rnd Skip l g = Normal l g"
| "execute rnd (Seq a b) l g =
     (case execute rnd a l g of
        Normal l' g' \<Rightarrow> execute rnd b l' g'
      | Returned v g' \<Rightarrow> Returned v g'
      | Aborted x g' \<Rightarrow> Aborted x g')"
| "execute rnd (IfThen c a) l g =
     (case evaluate rnd c l g of
        Inl x \<Rightarrow> Aborted x g
      | Inr v \<Rightarrow> if truthy v then execute rnd a l g else Normal l g)"
| "execute rnd (ForIndex i e body) l g =
     (case evaluate rnd e l g of
        Inl x \<Rightarrow> Aborted x g
      | Inr v \<Rightarrow>
          (case v of
             VArr xs \<Rightarrow>
               fold (\<lambda>k out.
                       case out of
                         Normal l' g' \<Rightarrow> execute rnd body (l'(i := VNum (Fin (real k)))) g'
                       | Returned v g' \<Rightarrow> Returned v g'
                       | Aborted x g' \<Rightarrow> Aborted x g')
                    [0..<length xs] (Normal l g)
           | _ \<Rightarrow> Aborted OutsideModel g))"
| "execute rnd (Return e) l g =
     (case evaluate rnd e l g of Inl x \<Rightarrow> Aborted x g | Inr v \<Rightarrow> Returned v g)"
| "execute rnd (Assign x e) l g =
     (case evaluate rnd e l g of Inl x \<Rightarrow> Aborted x g | Inr v \<Rightarrow> Normal (l(x := v)) g)"
| "execute rnd (Write w e) l g =
     (case evaluate rnd e l g of Inl x \<Rightarrow> Aborted x g | Inr v \<Rightarrow> Normal l (w v g))"

text \<open>
  A call of a function with the body and the arguments given, in a program state: what
  the call returns or throws, and the program state after it. A parameter without an
  argument is \<^verbatim>\<open>undefined\<close>, and a body that ends without a \<^verbatim>\<open>return\<close> returns
  \<^verbatim>\<open>undefined\<close>.
\<close>

definition arguments :: "(string \<times> val) list \<Rightarrow> string \<Rightarrow> val" where
  "arguments ps x = (case map_of ps x of None \<Rightarrow> VUndefined | Some v \<Rightarrow> v)"

definition call ::
  "(real \<Rightarrow> double) \<Rightarrow> 'g stmt \<Rightarrow> (string \<times> val) list \<Rightarrow> 'g \<Rightarrow> (abort + val) \<times> 'g" where
  "call rnd body ps g =
     (case execute rnd body (arguments ps) g of
        Normal l g' \<Rightarrow> (Inr VUndefined, g')
      | Returned v g' \<Rightarrow> (Inr v, g')
      | Aborted x g' \<Rightarrow> (Inl x, g'))"

text \<open>
  Whether an expression reads a variable of the module, and whether a statement reads
  or writes one.
\<close>

primrec reads_state :: "'g expr \<Rightarrow> bool" where
  "reads_state (Val v) = False"
| "reads_state (Var x) = False"
| "reads_state (Read r) = True"
| "reads_state (Neg e) = reads_state e"
| "reads_state (AndAlso a b) = (reads_state a \<or> reads_state b)"
| "reads_state (OrElse a b) = (reads_state a \<or> reads_state b)"
| "reads_state (Prim1 p e) = reads_state e"
| "reads_state (Prim2 p a b) = (reads_state a \<or> reads_state b)"

primrec touches_state :: "'g stmt \<Rightarrow> bool" where
  "touches_state Skip = False"
| "touches_state (Seq a b) = (touches_state a \<or> touches_state b)"
| "touches_state (IfThen c a) = (reads_state c \<or> touches_state a)"
| "touches_state (ForIndex i e body) = (reads_state e \<or> touches_state body)"
| "touches_state (Return e) = reads_state e"
| "touches_state (Assign x e) = reads_state e"
| "touches_state (Write w e) = True"

text \<open>
  The three bodies, statement by statement. \<open>found x s\<close> is
  \<^verbatim>\<open>x.indexOf(s) !== -1\<close>.
\<close>

abbreviation str_lit :: "string \<Rightarrow> 'g expr" where
  "str_lit s \<equiv> Val (VStr s)"

abbreviation num_lit :: "real \<Rightarrow> 'g expr" where
  "num_lit r \<equiv> Val (VNum (Fin r))"

abbreviation found :: "string \<Rightarrow> string \<Rightarrow> 'g expr" where
  "found x s \<equiv> Prim2 StrictNe (Prim2 IndexOf (Var x) (str_lit s)) (num_lit (- 1))"

definition disallowsSameSiteNone_body :: "'g stmt" where
  "disallowsSameSiteNone_body =
     Seq (IfThen (Neg (Prim1 IsString (Var ''userAgent'')))
            (Return (Val (VBool False))))
    (Seq (IfThen (OrElse (found ''userAgent'' ''CPU iPhone OS 12'')
                         (found ''userAgent'' ''iPad; CPU OS 12''))
            (Return (Val (VBool True))))
    (Seq (IfThen (AndAlso (AndAlso (found ''userAgent'' ''Macintosh; Intel Mac OS X 10_14'')
                                   (found ''userAgent'' ''Version/''))
                          (found ''userAgent'' ''Safari''))
            (Return (Val (VBool True))))
    (Seq (IfThen (AndAlso (found ''userAgent'' ''Macintosh; Intel Mac OS X 10_14'')
                          (Prim2 StrEndsWith (Var ''userAgent'')
                             (str_lit ''AppleWebKit/605.1.15 (KHTML, like Gecko)'')))
            (Return (Val (VBool True))))
    (Seq (IfThen (OrElse (found ''userAgent'' ''Chrome/5'') (found ''userAgent'' ''Chrome/6''))
            (Return (Val (VBool True))))
    (Seq (IfThen (AndAlso (found ''userAgent'' ''UnrealEngine'')
                          (Prim2 StrictEq
                             (Prim2 IndexOf (Var ''userAgent'') (str_lit ''Chrome''))
                             (num_lit (- 1))))
            (Return (Val (VBool True))))
    (Seq (IfThen (OrElse (found ''userAgent'' ''UCBrowser/12'')
                         (found ''userAgent'' ''UCBrowser/11''))
            (Return (Val (VBool True))))
         (Return (Val (VBool False)))))))))"

definition getCorrelationContextValue_body :: "'g stmt" where
  "getCorrelationContextValue_body =
     IfThen (Var ''responseHeader'')
       (Seq (Assign ''keyValues'' (Prim2 Split (Var ''responseHeader'') (str_lit '','')))
            (ForIndex ''i'' (Var ''keyValues'')
               (Seq (Assign ''keyValue''
                       (Prim2 Split (Prim2 Index (Var ''keyValues'') (Var ''i''))
                          (str_lit ''='')))
                    (IfThen (AndAlso
                               (Prim2 StrictEq (Prim1 Length (Var ''keyValue'')) (num_lit 2))
                               (Prim2 StrictEq (Prim2 Index (Var ''keyValue'') (num_lit 0))
                                  (Var ''key'')))
                       (Return (Prim2 Index (Var ''keyValue'') (num_lit 1)))))))"

definition dateTimeUtilsDuration_body :: "'g stmt" where
  "dateTimeUtilsDuration_body =
     Seq (Assign ''result'' (Val VNull))
    (Seq (IfThen (AndAlso (AndAlso (AndAlso (Prim2 StrictNe (Var ''start'') (num_lit 0))
                                            (Prim2 StrictNe (Var ''end'') (num_lit 0)))
                                   (Neg (Prim1 IsNullOrUndefined (Var ''start''))))
                          (Neg (Prim1 IsNullOrUndefined (Var ''end''))))
            (Assign ''result'' (Prim2 Minus (Var ''end'') (Var ''start''))))
         (Return (Var ''result'')))"

text \<open>
  The values of the first sections among the values of the programs, and the result of
  \<open>getCorrelationContextValue\<close> among them.
\<close>

fun val_of :: "jsval \<Rightarrow> val" where
  "val_of JUndefined = VUndefined"
| "val_of JNull = VNull"
| "val_of (JBool b) = VBool b"
| "val_of (JNum r) = VNum (Fin r)"
| "val_of (JStr s) = VStr s"
| "val_of JObject = VObject"

definition val_of_result :: "string option \<Rightarrow> val" where
  "val_of_result r = (case r of None \<Rightarrow> VUndefined | Some s \<Rightarrow> VStr s)"

text \<open>An outcome with another program state in the place of its own.\<close>

fun in_state :: "'g \<Rightarrow> 'g outcome \<Rightarrow> 'g outcome" where
  "in_state g (Normal l g') = Normal l g"
| "in_state g (Returned v g') = Returned v g"
| "in_state g (Aborted x g') = Aborted x g"

text \<open>
  The assignment \<^verbatim>\<open>Util._canUseLocalStorage = false\<close> of the \<^verbatim>\<open>catch\<close> blocks of
  \<open>getStorage\<close>, \<open>setStorage\<close> and \<open>removeStorage\<close>, as a statement.
\<close>

definition clear_flag :: "'st program_state stmt" where
  "clear_flag =
     Write (\<lambda>v s. s\<lparr>canUseLocalStorage_flag := (case v of VBool b \<Rightarrow> Some b | _ \<Rightarrow> None)\<rparr>)
       (Val (VBool False))"


section \<open>Notions the claims use\<close>

text \<open>
  Whether the storage object throws in the course of
  \<^verbatim>\<open>Util._getVerifiedStorageObject\<close>, at its \<^verbatim>\<open>setItem\<close>, \<^verbatim>\<open>getItem\<close> or
  \<^verbatim>\<open>removeItem\<close>, when the verification starts in the state given. A storage object
  that is missing does not throw.
\<close>

definition verification_throws ::
  "'st browser \<Rightarrow> StorageType \<Rightarrow> 'st program_state \<Rightarrow> bool" where
  "verification_throws env storageType s =
     (global_present env \<and>
      (let uid = date_string env in
       case (if storageType = LocalStorage then localStorage env else sessionStorage env) of
         None \<Rightarrow> False
       | Some storage \<Rightarrow>
           (case setItem storage uid uid (store s) of
              (Inl e, st1) \<Rightarrow> True
            | (Inr _, st1) \<Rightarrow>
                (case getItem storage uid st1 of
                   (Inl e, st2) \<Rightarrow> True
                 | (Inr v, st2) \<Rightarrow>
                     (case removeItem storage uid st2 of
                        (Inl e, st3) \<Rightarrow> True
                      | (Inr _, st3) \<Rightarrow> False)))))"


text \<open>
  The claim's wording of the known broken browsers, over the library's notions of a
  contiguous sublist and a suffix.
\<close>

definition known_broken_browser :: "string \<Rightarrow> bool" where
  "known_broken_browser ua =
     (sublist ''CPU iPhone OS 12'' ua \<or> sublist ''iPad; CPU OS 12'' ua
      \<or> (sublist ''Macintosh; Intel Mac OS X 10_14'' ua
           \<and> sublist ''Version/'' ua \<and> sublist ''Safari'' ua)
      \<or> (sublist ''Macintosh; Intel Mac OS X 10_14'' ua
           \<and> suffix ''AppleWebKit/605.1.15 (KHTML, like Gecko)'' ua)
      \<or> sublist ''Chrome/5'' ua \<or> sublist ''Chrome/6'' ua
      \<or> (sublist ''UnrealEngine'' ua \<and> \<not> sublist ''Chrome'' ua)
      \<or> sublist ''UCBrowser/12'' ua \<or> sublist ''UCBrowser/11'' ua)"

text \<open>The arguments for which \<^verbatim>\<open>dateTimeUtilsDuration\<close> has no duration.\<close>

definition zero_or_missing :: "number \<Rightarrow> bool" where
  "zero_or_missing v = (v = Number (Fin 0) \<or> v = Null \<or> v = Undefined)"


text \<open>
  The version extracted from a file: the three numbers that the pattern
  \<^verbatim>\<open>extractFilename\<close> reads from the path of the file, without their leading dot;
  \<open>None\<close> when the pattern does not match.
\<close>

definition extracted_version :: "string \<Rightarrow> string option" where
  "extracted_version inputFile =
     (case extractFilename_exec inputFile of
        None \<Rightarrow> None
      | Some (raw, g1, g2, g3) \<Rightarrow> Some (substring_from g2 1))"

text \<open>
  The claim's reading of a domain glob: the star matches any sequence of characters,
  every other character, the dot included, matches itself, and case is ignored. The
  glob is looked for anywhere in the host, the weakest reading of a match.
\<close>

fun glob_match_here :: "string \<Rightarrow> string \<Rightarrow> bool" where
  "glob_match_here [] s = True"
| "glob_match_here (g # gs) [] = (g = CHR ''*'' \<and> glob_match_here gs [])"
| "glob_match_here (g # gs) (x # xs) =
     (if g = CHR ''*'' then glob_match_here gs (x # xs) \<or> glob_match_here (g # gs) xs
      else g = x \<and> glob_match_here gs xs)"

fun glob_found_from :: "string \<Rightarrow> string \<Rightarrow> bool" where
  "glob_found_from g [] = glob_match_here g []"
| "glob_found_from g (x # xs) = (glob_match_here g (x # xs) \<or> glob_found_from g xs)"

definition glob_found :: "string \<Rightarrow> string \<Rightarrow> bool" where
  "glob_found glob host = glob_found_from (toLowerCase glob) (toLowerCase host)"



section \<open>Example inputs\<close>

text \<open>
  An arithmetic in which no difference needs rounding. Binary64 agrees with it wherever
  the exact difference is a binary64 value, as for times in whole milliseconds.
\<close>

definition no_rounding :: "real \<Rightarrow> double" where
  "no_rounding r = Fin r"

text \<open>
  A browser store as a list of pairs, behind a storage object that refuses some keys:
  it throws on them and serves the others.
\<close>

type_synonym assoc_store = "(string \<times> string) list"

definition assoc_storage :: "(string \<Rightarrow> bool) \<Rightarrow> assoc_store storage" where
  "assoc_storage refuses =
     \<lparr> getItem = (\<lambda>k st. if refuses k then (Inl (Exception ''SecurityError'' []), st)
                          else (Inr (map_of st k), st)),
       setItem = (\<lambda>k v st. if refuses k then (Inl (Exception ''QuotaExceededError'' []), st)
                            else (Inr (), (k, v) # filter (\<lambda>p. fst p \<noteq> k) st)),
       removeItem = (\<lambda>k st. if refuses k then (Inl (Exception ''SecurityError'' []), st)
                             else (Inr (), filter (\<lambda>p. fst p \<noteq> k) st)) \<rparr>"

text \<open>
  A browser whose local storage refuses the keys given, and whose anchor elements
  report the host written in an absolute URL and the page's own host for any other.
\<close>

definition example_browser :: "(string \<Rightarrow> bool) \<Rightarrow> string \<Rightarrow> assoc_store browser" where
  "example_browser refuses page_host =
     \<lparr> global_present = True,
       localStorage = Some (assoc_storage refuses),
       sessionStorage = None,
       date_string = ''Tue Nov 03 2026 10:00:00 GMT+0000'',
       createElement_host =
         Some (\<lambda>url. case parseFullHost url False of None \<Rightarrow> page_host | Some h \<Rightarrow> h) \<rparr>"



definition initial_state :: "assoc_store program_state" where
  "initial_state =
     \<lparr> uaDisallowsSameSiteNone = None,
       canUseLocalStorage_flag = None,
       canUseSessionStorage_flag = None,
       htmlAnchorIdx = 0,
       htmlAnchorElement = [False, False, False, False, False],
       store = [] \<rparr>"



text \<open>Two configurations: cross-origin correlation with an exclude list, and with an
  include list.\<close>

definition excluding_config :: ICorrelationConfig where
  "excluding_config =
     \<lparr> enableCorsCorrelation = True,
       correlationHeaderExcludedDomains = Some [''example.com''],
       correlationHeaderExcludePatterns = None,
       disableCorrelationHeaders = False,
       correlationHeaderDomains = None \<rparr>"

definition including_config :: ICorrelationConfig where
  "including_config =
     \<lparr> enableCorsCorrelation = True,
       correlationHeaderExcludedDomains = None,
       correlationHeaderExcludePatterns = None,
       disableCorrelationHeaders = False,
       correlationHeaderDomains = Some [''my.site.com''] \<rparr>"

text \<open>
  A build directory with the files given, all of one text, and a stand-in for the
  digests.
\<close>

definition example_build :: "string list \<Rightarrow> build_env" where
  "example_build files =
     \<lparr> globby_sync = (\<lambda>pattern. files),
       readFileSync = (\<lambda>file. ''var ai;''),
       digest_base64 = (\<lambda>algorithm source. algorithm @ ''/'' @ source) \<rparr>"

text \<open>Two files that map to one integrity file under two module names.\<close>

definition clashing_files :: "string list" where
  "clashing_files = [''./browser/ai.2.5.6.js'', ''./browser/ai.2.5.6.2.5.6.js'']"

text \<open>The details the script writes for a file of the example build.\<close>

definition example_details :: "string \<Rightarrow> file_details" where
  "example_details file =
     \<lparr> fd_file = file,
       fd_type = ''text/javascript; charset=utf-8'',
       fd_integrity = ''sha256-sha256/var ai; sha384-sha384/var ai; sha512-sha512/var ai;'',
       fd_hashes =
         \<lparr> sha256 = ''sha256/var ai;'', sha384 = ''sha384/var ai;'',
           sha512 = ''sha512/var ai;'' \<rparr> \<rparr>"



section \<open>Properties of the string primitives\<close>

lemma startsWith_prefix: "startsWith s p \<longleftrightarrow> prefix p s"
  by (induction s p rule: startsWith.induct) auto

lemma endsWith_suffix: "endsWith s e \<longleftrightarrow> suffix e s"
  by (simp add: endsWith_def startsWith_prefix suffix_to_prefix)

lemma indexOf_ge: "- 1 \<le> indexOf s sub"
  by (induction s) (auto simp: Let_def)

lemma indexOf_sublist: "indexOf s sub \<noteq> - 1 \<longleftrightarrow> sublist sub s"
proof (induction s)
  case Nil
  then show ?case by simp
next
  case (Cons c cs)
  have "- 1 \<le> indexOf cs sub" by (rule indexOf_ge)
  then have "indexOf cs sub + 1 \<noteq> - 1" by arith
  with Cons show ?case
    by (auto simp: Let_def startsWith_prefix sublist_Cons_right)
qed

lemma indexOf_none: "indexOf s sub = - 1 \<longleftrightarrow> \<not> sublist sub s"
  using indexOf_sublist [of s sub] by blast

lemma strEndsWith_suffix:
  "search \<noteq> [] \<Longrightarrow> strEndsWith v search \<longleftrightarrow> suffix search v"
  by (auto simp: strEndsWith_def endsWith_suffix)

lemma substring_from_1: "substring_from (c # d) 1 = d"
  by (simp add: substring_from_def substring_def Let_def)


section \<open>Util.disallowsSameSiteNone: the patterns and the type test\<close>

text \<open>
  C6: on a user-agent string, \<open>disallowsSameSiteNone\<close> is true exactly when the string
  is one of the known broken browsers: it contains "CPU iPhone OS 12" or
  "iPad; CPU OS 12"; or "Macintosh; Intel Mac OS X 10_14" with both "Version/" and
  "Safari", or with the suffix "AppleWebKit/605.1.15 (KHTML, like Gecko)"; or
  "Chrome/5" or "Chrome/6"; or "UnrealEngine" without "Chrome"; or "UCBrowser/12" or
  "UCBrowser/11". Otherwise it is false.
\<close>

theorem disallowsSameSiteNone_iff_known_broken:
  "disallowsSameSiteNone (JStr ua) = known_broken_browser ua"
  by (simp add: disallowsSameSiteNone_def isString_def known_broken_browser_def
      indexOf_sublist indexOf_none strEndsWith_suffix)

text \<open>An iPhone on iOS 12 is a known broken browser; Chrome 80 on Linux is not.\<close>

theorem disallowsSameSiteNone_iff_known_broken_witness:
  "known_broken_browser
     ''Mozilla/5.0 (iPhone; CPU iPhone OS 12_0 like Mac OS X) AppleWebKit/605.1.15''
   \<and> \<not> known_broken_browser
         ''Mozilla/5.0 (X11; Linux x86_64) Chrome/80.0.3987.87 Safari/537.36''"
proof -
  have "disallowsSameSiteNone
     (JStr ''Mozilla/5.0 (iPhone; CPU iPhone OS 12_0 like Mac OS X) AppleWebKit/605.1.15'')"
    by code_simp
  moreover have "\<not> disallowsSameSiteNone
     (JStr ''Mozilla/5.0 (X11; Linux x86_64) Chrome/80.0.3987.87 Safari/537.36'')"
    by code_simp
  ultimately show ?thesis
    unfolding disallowsSameSiteNone_iff_known_broken by simp
qed

text \<open>
  C9: for every argument that is not a string (null, undefined and numbers among
  them), \<open>disallowsSameSiteNone\<close> returns false. The first statement of the function
  returns before any operation that could throw, so the model has no exception on
  this path: the result is a boolean.
\<close>

theorem disallowsSameSiteNone_non_string:
  "\<not> isString v \<Longrightarrow> disallowsSameSiteNone v = False"
  by (simp add: disallowsSameSiteNone_def)

theorem disallowsSameSiteNone_non_string_witness:
  "\<not> isString JNull \<and> disallowsSameSiteNone JNull = False
   \<and> \<not> isString JUndefined \<and> disallowsSameSiteNone JUndefined = False
   \<and> \<not> isString (JNum 12) \<and> disallowsSameSiteNone (JNum 12) = False"
  using disallowsSameSiteNone_non_string [of JNull]
    disallowsSameSiteNone_non_string [of JUndefined]
    disallowsSameSiteNone_non_string [of "JNum 12"]
  by (simp add: isString_def)


section \<open>dateTimeUtilsDuration: when there is a duration\<close>

text \<open>
  C10: \<open>dateTimeUtilsDuration\<close> returns null whenever the start or the end is 0, null
  or undefined. For all other inputs, not-a-number and the infinities among them, it
  returns the value of \<^verbatim>\<open>end - start\<close>: for two finite numbers other than 0 the
  rounded difference, whatever the rounding, and a negative number when the end
  precedes the start and their difference needs no rounding.
\<close>

theorem dateTimeUtilsDuration_result:
  "(zero_or_missing start \<or> zero_or_missing end' \<longrightarrow> dateTimeUtilsDuration rnd start end' = Null)
   \<and> (\<not> zero_or_missing start \<and> \<not> zero_or_missing end'
        \<longrightarrow> dateTimeUtilsDuration rnd start end' = js_minus rnd end' start)
   \<and> (a \<noteq> 0 \<and> b \<noteq> 0
        \<longrightarrow> dateTimeUtilsDuration rnd (Number (Fin a)) (Number (Fin b)) = Number (rnd (b - a)))
   \<and> (a \<noteq> 0 \<and> b \<noteq> 0 \<and> b < a \<and> rnd (b - a) = Fin (b - a)
        \<longrightarrow> (\<exists>d. d < 0
              \<and> dateTimeUtilsDuration rnd (Number (Fin a)) (Number (Fin b)) = Number (Fin d)))"
  by (auto simp: dateTimeUtilsDuration_def zero_or_missing_def isNullOrUndefined_def
      js_minus_def)

theorem dateTimeUtilsDuration_result_witness:
  "dateTimeUtilsDuration no_rounding (Number (Fin 0)) (Number (Fin 5)) = Null
   \<and> dateTimeUtilsDuration no_rounding (Number (Fin 5)) Undefined = Null
   \<and> dateTimeUtilsDuration no_rounding Null (Number (Fin 5)) = Null
   \<and> dateTimeUtilsDuration no_rounding (Number (Fin 10)) (Number (Fin 3)) = Number (Fin (- 7))
   \<and> dateTimeUtilsDuration no_rounding (Number (Fin 10)) (Number NaN) = Number NaN
   \<and> dateTimeUtilsDuration no_rounding (Number NInf) (Number (Fin 3)) = Number PInf
   \<and> (\<exists>d. d < 0
        \<and> dateTimeUtilsDuration no_rounding (Number (Fin 10)) (Number (Fin 3)) = Number (Fin d))"
  using dateTimeUtilsDuration_result [of "Number (Fin 0)" "Number (Fin 5)" no_rounding 10 3]
    dateTimeUtilsDuration_result [of "Number (Fin 5)" Undefined no_rounding 10 3]
    dateTimeUtilsDuration_result [of Null "Number (Fin 5)" no_rounding 10 3]
    dateTimeUtilsDuration_result [of "Number (Fin 10)" "Number NaN" no_rounding 10 3]
    dateTimeUtilsDuration_result [of "Number NInf" "Number (Fin 3)" no_rounding 10 3]
  by (simp add: zero_or_missing_def js_minus_def no_rounding_def)


section \<open>The pure helpers and the program state\<close>

text \<open>
  An expression that reads no variable of the module has the same value in every
  program state, and a statement that reads and writes none ends in the same way in
  every program state and leaves the state as it was.
\<close>

lemma evaluate_frame: "\<not> reads_state e \<Longrightarrow> evaluate rnd e l g = evaluate rnd e l g'"
  by (induction e) (auto split: sum.splits)

lemma in_state_idem [simp]: "in_state g (in_state g' out) = in_state g out"
  by (cases out) auto

lemma loop_frame:
  assumes step: "\<And>l g g'. execute rnd body l g = in_state g (execute rnd body l g')"
  shows "fold (\<lambda>k out.
                 case out of
                   Normal l' g' \<Rightarrow> execute rnd body (l'(i := VNum (Fin (real k)))) g'
                 | Returned v g' \<Rightarrow> Returned v g'
                 | Aborted x g' \<Rightarrow> Aborted x g') ks (in_state g out)
       = in_state g
           (fold (\<lambda>k out.
                 case out of
                   Normal l' g' \<Rightarrow> execute rnd body (l'(i := VNum (Fin (real k)))) g'
                 | Returned v g' \<Rightarrow> Returned v g'
                 | Aborted x g' \<Rightarrow> Aborted x g') ks out)"
proof (induction ks arbitrary: out)
  case Nil
  then show ?case by simp
next
  case (Cons k ks)
  have "(case in_state g out of
           Normal l' g' \<Rightarrow> execute rnd body (l'(i := VNum (Fin (real k)))) g'
         | Returned v g' \<Rightarrow> Returned v g'
         | Aborted x g' \<Rightarrow> Aborted x g')
      = in_state g
          (case out of
             Normal l' g' \<Rightarrow> execute rnd body (l'(i := VNum (Fin (real k)))) g'
           | Returned v g' \<Rightarrow> Returned v g'
           | Aborted x g' \<Rightarrow> Aborted x g')"
    by (cases out) (simp_all add: step [symmetric])
  then show ?case
    by (simp add: Cons.IH)
qed

lemma execute_frame:
  "\<not> touches_state st \<Longrightarrow> execute rnd st l g = in_state g (execute rnd st l g')"
proof (induction st arbitrary: l g g')
  case Skip
  then show ?case by simp
next
  case (Seq a b)
  then have a: "execute rnd a l g = in_state g (execute rnd a l g')"
    and b: "\<And>l g g'. execute rnd b l g = in_state g (execute rnd b l g')"
    by simp_all
  show ?case
  proof (cases "execute rnd a l g'")
    case (Normal l1 g1)
    with a b [of l1 g g1] show ?thesis by simp
  next
    case (Returned v g1)
    with a show ?thesis by simp
  next
    case (Aborted x g1)
    with a show ?thesis by simp
  qed
next
  case (IfThen c a)
  then have c: "evaluate rnd c l g = evaluate rnd c l g'"
    and a: "execute rnd a l g = in_state g (execute rnd a l g')"
    by (simp_all add: evaluate_frame)
  then show ?case
    by (simp split: sum.splits)
next
  case (ForIndex i e body)
  then have e: "evaluate rnd e l g = evaluate rnd e l g'"
    and body: "\<And>l g g'. execute rnd body l g = in_state g (execute rnd body l g')"
    by (simp_all add: evaluate_frame)
  have start: "Normal l g = in_state g (Normal l g')"
    by simp
  show ?case
    by (simp add: e split: sum.splits val.splits)
      (auto simp only: start loop_frame [OF body])
next
  case (Return e)
  then have "evaluate rnd e l g = evaluate rnd e l g'"
    by (simp add: evaluate_frame)
  then show ?case by (simp split: sum.splits)
next
  case (Assign x e)
  then have "evaluate rnd e l g = evaluate rnd e l g'"
    by (simp add: evaluate_frame)
  then show ?case by (simp split: sum.splits)
next
  case (Write w e)
  then show ?case by simp
qed

lemma call_frame:
  assumes "\<not> touches_state body"
  shows "fst (call rnd body ps g) = fst (call rnd body ps g')"
    and "snd (call rnd body ps g) = g"
proof -
  from execute_frame [OF assms] have
    e: "execute rnd body (arguments ps) g = in_state g (execute rnd body (arguments ps) g')"
    by blast
  show "fst (call rnd body ps g) = fst (call rnd body ps g')"
    unfolding call_def e by (cases "execute rnd body (arguments ps) g'") simp_all
  show "snd (call rnd body ps g) = g"
    unfolding call_def e by (cases "execute rnd body (arguments ps) g'") simp_all
qed

text \<open>The three bodies read and write no variable of the module.\<close>

lemma disallowsSameSiteNone_body_pure: "\<not> touches_state disallowsSameSiteNone_body"
  by (simp add: disallowsSameSiteNone_body_def)

lemma getCorrelationContextValue_body_pure:
  "\<not> touches_state getCorrelationContextValue_body"
  by (simp add: getCorrelationContextValue_body_def)

lemma dateTimeUtilsDuration_body_pure: "\<not> touches_state dateTimeUtilsDuration_body"
  by (simp add: dateTimeUtilsDuration_body_def)

text \<open>
  C7: \<open>disallowsSameSiteNone\<close>, \<open>getCorrelationContextValue\<close> and
  \<open>dateTimeUtilsDuration\<close> are deterministic and leave the program state alone: two
  calls on equal arguments, in any two program states, return equal results (or throw
  equal exceptions), and each leaves its program state as it was. The three bodies
  read and write their parameters and locals only.
\<close>

theorem pure_helpers_deterministic:
  fixes s1 s2 :: 'g
  shows "fst (call rnd disallowsSameSiteNone_body ps s1)
       = fst (call rnd disallowsSameSiteNone_body ps s2)
   \<and> snd (call rnd disallowsSameSiteNone_body ps s1) = s1
   \<and> snd (call rnd disallowsSameSiteNone_body ps s2) = s2
   \<and> fst (call rnd getCorrelationContextValue_body ps s1)
       = fst (call rnd getCorrelationContextValue_body ps s2)
   \<and> snd (call rnd getCorrelationContextValue_body ps s1) = s1
   \<and> snd (call rnd getCorrelationContextValue_body ps s2) = s2
   \<and> fst (call rnd dateTimeUtilsDuration_body ps s1)
       = fst (call rnd dateTimeUtilsDuration_body ps s2)
   \<and> snd (call rnd dateTimeUtilsDuration_body ps s1) = s1
   \<and> snd (call rnd dateTimeUtilsDuration_body ps s2) = s2"
proof (intro conjI)
  show "fst (call rnd disallowsSameSiteNone_body ps s1)
      = fst (call rnd disallowsSameSiteNone_body ps s2)"
    by (rule call_frame(1) [OF disallowsSameSiteNone_body_pure])
  show "snd (call rnd disallowsSameSiteNone_body ps s1) = s1"
    by (rule call_frame(2) [OF disallowsSameSiteNone_body_pure])
  show "snd (call rnd disallowsSameSiteNone_body ps s2) = s2"
    by (rule call_frame(2) [OF disallowsSameSiteNone_body_pure])
  show "fst (call rnd getCorrelationContextValue_body ps s1)
      = fst (call rnd getCorrelationContextValue_body ps s2)"
    by (rule call_frame(1) [OF getCorrelationContextValue_body_pure])
  show "snd (call rnd getCorrelationContextValue_body ps s1) = s1"
    by (rule call_frame(2) [OF getCorrelationContextValue_body_pure])
  show "snd (call rnd getCorrelationContextValue_body ps s2) = s2"
    by (rule call_frame(2) [OF getCorrelationContextValue_body_pure])
  show "fst (call rnd dateTimeUtilsDuration_body ps s1)
      = fst (call rnd dateTimeUtilsDuration_body ps s2)"
    by (rule call_frame(1) [OF dateTimeUtilsDuration_body_pure])
  show "snd (call rnd dateTimeUtilsDuration_body ps s1) = s1"
    by (rule call_frame(2) [OF dateTimeUtilsDuration_body_pure])
  show "snd (call rnd dateTimeUtilsDuration_body ps s2) = s2"
    by (rule call_frame(2) [OF dateTimeUtilsDuration_body_pure])
qed

text \<open>
  The property is one of the three bodies, not of every body: the assignment to the
  flag leaves another program state.
\<close>

lemma clear_flag_changes_state:
  "snd (call rnd clear_flag ps initial_state) \<noteq> initial_state"
proof
  assume "snd (call rnd clear_flag ps initial_state) = initial_state"
  then have "canUseLocalStorage_flag (snd (call rnd clear_flag ps initial_state))
      = canUseLocalStorage_flag initial_state"
    by simp
  then show False
    by (simp add: call_def clear_flag_def initial_state_def)
qed

text \<open>
  What the three bodies compute: the functions of the first sections, on the values
  of the parameters' types.
\<close>

lemma of_int_minus_one: "real_of_int i = - 1 \<longleftrightarrow> i = - 1"
  by linarith

lemma arguments_simps [simp]:
  "arguments [] x = VUndefined"
  "arguments ((y, v) # ps) x = (if x = y then v else arguments ps x)"
  by (auto simp: arguments_def)

lemma disallowsSameSiteNone_body_result:
  "call rnd disallowsSameSiteNone_body [(''userAgent'', val_of userAgent)] s
     = (Inr (VBool (disallowsSameSiteNone userAgent)), s)"
  by (cases userAgent)
    (simp_all add: call_def disallowsSameSiteNone_body_def disallowsSameSiteNone_def
      isString_def strict_equal_def of_int_minus_one Let_def)

lemma dateTimeUtilsDuration_body_result:
  "call rnd dateTimeUtilsDuration_body
       [(''start'', val_of_number start), (''end'', val_of_number end')] s
     = (Inr (val_of_number (dateTimeUtilsDuration rnd start end')), s)"
  by (cases start; cases end')
    (simp_all add: call_def dateTimeUtilsDuration_body_def dateTimeUtilsDuration_def
      isNullOrUndefined_def strict_equal_def js_minus_def Let_def)

lemma loop_step:
  "fold (\<lambda>k out.
           case out of
             Normal l' g' \<Rightarrow> execute rnd body (l'(i := VNum (Fin (real k)))) g'
           | Returned v g' \<Rightarrow> Returned v g'
           | Aborted x g' \<Rightarrow> Aborted x g') (k # ks) (Normal l g)
   = fold (\<lambda>k out.
           case out of
             Normal l' g' \<Rightarrow> execute rnd body (l'(i := VNum (Fin (real k)))) g'
           | Returned v g' \<Rightarrow> Returned v g'
           | Aborted x g' \<Rightarrow> Aborted x g') ks
       (execute rnd body (l(i := VNum (Fin (real k)))) g)"
  by simp

lemma loop_stopped:
  "fold (\<lambda>k out.
           case out of
             Normal l' g' \<Rightarrow> execute rnd body (l'(i := VNum (Fin (real k)))) g'
           | Returned v g' \<Rightarrow> Returned v g'
           | Aborted x g' \<Rightarrow> Aborted x g') ks (Returned v g)
   = Returned v g"
  by (induction ks) simp_all

text \<open>The loop of \<open>getCorrelationContextValue\<close>, from any index on.\<close>

lemma loop_of_getCorrelationContextValue:
  fixes g :: 'g
  assumes "l ''keyValues'' = VArr (map VStr (pre @ ys))" and "l ''key'' = VStr key"
  shows "\<exists>l'. fold (\<lambda>k out.
                 case out of
                   Normal l' g' \<Rightarrow>
                     execute rnd
                       (Seq (Assign ''keyValue''
                               (Prim2 Split (Prim2 Index (Var ''keyValues'') (Var ''i''))
                                  (str_lit ''='')))
                            (IfThen (AndAlso
                                       (Prim2 StrictEq (Prim1 Length (Var ''keyValue''))
                                          (num_lit 2))
                                       (Prim2 StrictEq
                                          (Prim2 Index (Var ''keyValue'') (num_lit 0))
                                          (Var ''key'')))
                               (Return (Prim2 Index (Var ''keyValue'') (num_lit 1)))))
                       (l'(''i'' := VNum (Fin (real k)))) g'
                 | Returned v g' \<Rightarrow> Returned v g'
                 | Aborted x g' \<Rightarrow> Aborted x g')
              [length pre..<length pre + length ys] (Normal l g)
          = (case getCorrelationContextValue_loop ys key of
               None \<Rightarrow> Normal l' g
             | Some v \<Rightarrow> Returned (VStr v) g)"
  using assms
proof (induction ys arbitrary: pre l)
  case Nil
  then show ?case by simp
next
  case (Cons y ys)
  let ?body = "Seq (Assign ''keyValue''
                               (Prim2 Split (Prim2 Index (Var ''keyValues'') (Var ''i''))
                                  (str_lit ''='')))
                            (IfThen (AndAlso
                                       (Prim2 StrictEq (Prim1 Length (Var ''keyValue''))
                                          (num_lit 2))
                                       (Prim2 StrictEq
                                          (Prim2 Index (Var ''keyValue'') (num_lit 0))
                                          (Var ''key'')))
                               (Return (Prim2 Index (Var ''keyValue'') (num_lit 1))))
               :: 'g stmt"
  let ?F = "\<lambda>k out. case out of
                   Normal l' g' \<Rightarrow> execute rnd ?body (l'(''i'' := VNum (Fin (real k)))) g'
                 | Returned v g' \<Rightarrow> Returned v g'
                 | Aborted x g' \<Rightarrow> Aborted x g'"
  let ?kv = "split_char CHR ''='' y"
  let ?l1 = "l(''i'' := VNum (Fin (real (length pre))),
               ''keyValue'' := VArr (map VStr ?kv))"
  let ?rest = "[length (pre @ [y])..<length (pre @ [y]) + length ys]"
  have range: "[length pre..<length pre + length (y # ys)] = length pre # ?rest"
    by (simp add: upt_rec)
  have step: "execute rnd ?body (l(''i'' := VNum (Fin (real (length pre))))) g
      = (if length ?kv = 2 \<and> ?kv ! 0 = key then Returned (VStr (?kv ! 1)) g
         else Normal ?l1 g)"
    using Cons.prems by (simp add: strict_equal_def nth_append)
  have unfold: "fold ?F [length pre..<length pre + length (y # ys)] (Normal l g)
      = fold ?F ?rest (if length ?kv = 2 \<and> ?kv ! 0 = key then Returned (VStr (?kv ! 1)) g
         else Normal ?l1 g)"
    by (simp only: range loop_step step)
  show ?case
  proof (cases "length ?kv = 2 \<and> ?kv ! 0 = key")
    case True
    then have "getCorrelationContextValue_loop (y # ys) key = Some (?kv ! 1)"
      by (simp add: Let_def)
    moreover from True have c: "(length ?kv = 2 \<and> ?kv ! 0 = key) = True"
      by simp
    have "fold ?F [length pre..<length pre + length (y # ys)] (Normal l g)
         = Returned (VStr (?kv ! 1)) g"
      by (simp only: unfold c if_True loop_stopped)
    ultimately show ?thesis
      by (simp only: option.case) blast
  next
    case False
    then have c: "(length ?kv = 2 \<and> ?kv ! 0 = key) = False"
      by simp
    have loop: "getCorrelationContextValue_loop (y # ys) key
        = getCorrelationContextValue_loop ys key"
      using False by (auto simp: Let_def)
    have go:
      "fold ?F [length pre..<length pre + length (y # ys)] (Normal l g)
         = fold ?F ?rest (Normal ?l1 g)"
      by (simp only: unfold c if_False)
    have kvs: "?l1 ''keyValues'' = VArr (map VStr ((pre @ [y]) @ ys))"
      and key: "?l1 ''key'' = VStr key"
      using Cons.prems by simp_all
    from Cons.IH [OF kvs key] obtain l' where
      "fold ?F ?rest (Normal ?l1 g)
         = (case getCorrelationContextValue_loop ys key of
              None \<Rightarrow> Normal l' g
            | Some v \<Rightarrow> Returned (VStr v) g)"
      by blast
    then show ?thesis
      by (simp only: go loop) blast
  qed
qed

lemma getCorrelationContextValue_body_result:
  "call rnd getCorrelationContextValue_body
       [(''responseHeader'', VStr responseHeader), (''key'', VStr key)] s
     = (Inr (val_of_result (getCorrelationContextValue responseHeader key)), s)"
proof (cases "responseHeader = []")
  case True
  then show ?thesis
    by (simp add: call_def getCorrelationContextValue_body_def
        getCorrelationContextValue_def val_of_result_def)
next
  case False
  let ?ys = "split_char CHR '','' responseHeader"
  let ?l = "(arguments [(''responseHeader'', VStr responseHeader), (''key'', VStr key)])
              (''keyValues'' := VArr (map VStr ?ys))"
  have kvs: "?l ''keyValues'' = VArr (map VStr ([] @ ?ys))" and key: "?l ''key'' = VStr key"
    by simp_all
  have "\<exists>l'. fold (\<lambda>k out.
                 case out of
                   Normal l' g' \<Rightarrow>
                     execute rnd
                       (Seq (Assign ''keyValue''
                               (Prim2 Split (Prim2 Index (Var ''keyValues'') (Var ''i''))
                                  (str_lit ''='')))
                            (IfThen (AndAlso
                                       (Prim2 StrictEq (Prim1 Length (Var ''keyValue''))
                                          (num_lit 2))
                                       (Prim2 StrictEq
                                          (Prim2 Index (Var ''keyValue'') (num_lit 0))
                                          (Var ''key'')))
                               (Return (Prim2 Index (Var ''keyValue'') (num_lit 1)))))
                       (l'(''i'' := VNum (Fin (real k)))) g'
                 | Returned v g' \<Rightarrow> Returned v g'
                 | Aborted x g' \<Rightarrow> Aborted x g')
              [0..<length ?ys] (Normal ?l s)
          = (case getCorrelationContextValue_loop ?ys key of
               None \<Rightarrow> Normal l' s
             | Some v \<Rightarrow> Returned (VStr v) s)"
    using loop_of_getCorrelationContextValue [OF kvs key, of rnd s]
    by (simp only: append_Nil list.size add_0)
  then obtain l' where
    "fold (\<lambda>k out.
                 case out of
                   Normal l' g' \<Rightarrow>
                     execute rnd
                       (Seq (Assign ''keyValue''
                               (Prim2 Split (Prim2 Index (Var ''keyValues'') (Var ''i''))
                                  (str_lit ''='')))
                            (IfThen (AndAlso
                                       (Prim2 StrictEq (Prim1 Length (Var ''keyValue''))
                                          (num_lit 2))
                                       (Prim2 StrictEq
                                          (Prim2 Index (Var ''keyValue'') (num_lit 0))
                                          (Var ''key'')))
                               (Return (Prim2 Index (Var ''keyValue'') (num_lit 1)))))
                       (l'(''i'' := VNum (Fin (real k)))) g'
                 | Returned v g' \<Rightarrow> Returned v g'
                 | Aborted x g' \<Rightarrow> Aborted x g')
              [0..<length ?ys] (Normal ?l s)
          = (case getCorrelationContextValue_loop ?ys key of
               None \<Rightarrow> Normal l' s
             | Some v \<Rightarrow> Returned (VStr v) s)" ..
  with False show ?thesis
    by (simp add: call_def getCorrelationContextValue_body_def
        getCorrelationContextValue_def val_of_result_def split: option.splits)
qed

text \<open>
  Calls of the three bodies in the initial state and in the state after the storage
  flag was set.
\<close>

theorem pure_helpers_deterministic_witness:
  "call no_rounding disallowsSameSiteNone_body [(''userAgent'', VStr ''UCBrowser/11.0'')]
       initial_state
     = (Inr (VBool True), initial_state)
   \<and> call no_rounding disallowsSameSiteNone_body [(''userAgent'', VStr ''UCBrowser/11.0'')]
         (initial_state\<lparr>canUseLocalStorage_flag := Some True\<rparr>)
     = (Inr (VBool True), initial_state\<lparr>canUseLocalStorage_flag := Some True\<rparr>)
   \<and> call no_rounding getCorrelationContextValue_body
         [(''responseHeader'', VStr ''appId=cid-v1:7,roleName=web''), (''key'', VStr ''appId'')]
         initial_state
     = (Inr (VStr ''cid-v1:7''), initial_state)
   \<and> call no_rounding getCorrelationContextValue_body
         [(''responseHeader'', VStr ''appId=cid-v1:7,roleName=web''), (''key'', VStr ''appId'')]
         (initial_state\<lparr>canUseLocalStorage_flag := Some True\<rparr>)
     = (Inr (VStr ''cid-v1:7''), initial_state\<lparr>canUseLocalStorage_flag := Some True\<rparr>)
   \<and> call no_rounding dateTimeUtilsDuration_body
         [(''start'', VNum (Fin 10)), (''end'', VNum (Fin 3))] initial_state
     = (Inr (VNum (Fin (- 7))), initial_state)
   \<and> call no_rounding dateTimeUtilsDuration_body
         [(''start'', VNum (Fin 10)), (''end'', VNum (Fin 3))]
         (initial_state\<lparr>canUseLocalStorage_flag := Some True\<rparr>)
     = (Inr (VNum (Fin (- 7))), initial_state\<lparr>canUseLocalStorage_flag := Some True\<rparr>)"
proof -
  let ?s2 = "initial_state\<lparr>canUseLocalStorage_flag := Some True\<rparr>"
  let ?ua = "[(''userAgent'', VStr ''UCBrowser/11.0'')]"
  let ?cc = "[(''responseHeader'', VStr ''appId=cid-v1:7,roleName=web''),
              (''key'', VStr ''appId'')]"
  let ?du = "[(''start'', VNum (Fin 10)), (''end'', VNum (Fin 3))]"
  have ua: "disallowsSameSiteNone (JStr ''UCBrowser/11.0'') = True"
    by code_simp
  have cc: "getCorrelationContextValue ''appId=cid-v1:7,roleName=web'' ''appId''
      = Some ''cid-v1:7''"
    by code_simp
  have du: "dateTimeUtilsDuration no_rounding (Number (Fin 10)) (Number (Fin 3))
      = Number (Fin (- 7))"
    by (simp add: dateTimeUtilsDuration_def isNullOrUndefined_def js_minus_def
        no_rounding_def)
  have a: "fst (call no_rounding disallowsSameSiteNone_body ?ua initial_state)
      = Inr (VBool True)"
    using disallowsSameSiteNone_body_result
      [of no_rounding "JStr ''UCBrowser/11.0''" initial_state]
    by (simp add: ua)
  have b: "fst (call no_rounding getCorrelationContextValue_body ?cc initial_state)
      = Inr (VStr ''cid-v1:7'')"
    using getCorrelationContextValue_body_result
      [of no_rounding "''appId=cid-v1:7,roleName=web''" "''appId''" initial_state]
    by (simp add: cc val_of_result_def)
  have c: "fst (call no_rounding dateTimeUtilsDuration_body ?du initial_state)
      = Inr (VNum (Fin (- 7)))"
    using dateTimeUtilsDuration_body_result
      [of no_rounding "Number (Fin 10)" "Number (Fin 3)" initial_state]
    by (simp add: du)
  note T1 = pure_helpers_deterministic [of no_rounding ?ua initial_state ?s2]
  note T2 = pure_helpers_deterministic [of no_rounding ?cc initial_state ?s2]
  note T3 = pure_helpers_deterministic [of no_rounding ?du initial_state ?s2]
  from T1 a have 1: "call no_rounding disallowsSameSiteNone_body ?ua initial_state
        = (Inr (VBool True), initial_state)"
    and 2: "call no_rounding disallowsSameSiteNone_body ?ua ?s2 = (Inr (VBool True), ?s2)"
    by (simp_all add: prod_eq_iff)
  from T2 b have 3: "call no_rounding getCorrelationContextValue_body ?cc initial_state
        = (Inr (VStr ''cid-v1:7''), initial_state)"
    and 4: "call no_rounding getCorrelationContextValue_body ?cc ?s2
        = (Inr (VStr ''cid-v1:7''), ?s2)"
    by (simp_all add: prod_eq_iff)
  from T3 c have 5: "call no_rounding dateTimeUtilsDuration_body ?du initial_state
        = (Inr (VNum (Fin (- 7))), initial_state)"
    and 6: "call no_rounding dateTimeUtilsDuration_body ?du ?s2
        = (Inr (VNum (Fin (- 7))), ?s2)"
    by (simp_all add: prod_eq_iff)
  from 1 2 3 4 5 6 show ?thesis
    by (intro conjI)
qed


section \<open>Functions that change the program state\<close>

text \<open>
  \<open>parseUrl\<close>, which \<open>canIncludeCorrelationHeader\<close> calls, moves the index of the
  anchor cache, and \<open>canUseLocalStorage\<close> sets its flag on the first call.
\<close>

lemma parseUrl_moves_index:
  "snd (parseUrl env url initial_state) \<noteq> initial_state"
proof
  assume "snd (parseUrl env url initial_state) = initial_state"
  then have "htmlAnchorIdx (snd (parseUrl env url initial_state)) = htmlAnchorIdx initial_state"
    by simp
  then show False
    by (simp add: parseUrl_def initial_state_def Let_def split: option.splits prod.splits)
qed

lemma canUseLocalStorage_sets_flag:
  "canUseLocalStorage_flag s = None \<Longrightarrow> snd (canUseLocalStorage env s) \<noteq> s"
proof
  assume none: "canUseLocalStorage_flag s = None"
    and same: "snd (canUseLocalStorage env s) = s"
  from none have "canUseLocalStorage_flag (snd (canUseLocalStorage env s)) \<noteq> None"
    by (simp add: canUseLocalStorage_def Let_def split: prod.splits)
  with none same show False by simp
qed


section \<open>Util.getStorage, setStorage and removeStorage: failures of the storage object\<close>


lemma verification_throws_None:
  "verification_throws env storageType s
   \<Longrightarrow> fst (getVerifiedStorageObject env storageType s) = None"
  by (auto simp: verification_throws_def getVerifiedStorageObject_def Let_def
      split: option.splits sum.splits prod.splits if_splits)

lemma getVerifiedStorageObject_flag:
  "canUseLocalStorage_flag (snd (getVerifiedStorageObject env storageType s))
     = canUseLocalStorage_flag s"
  by (auto simp: getVerifiedStorageObject_def Let_def
      split: option.splits sum.splits prod.splits)





text \<open>
  The flag is left as it is when the storage object throws in the verification that
  follows an answer of true from \<open>canUseLocalStorage\<close>: the function returns null or
  false, and the flag stays true.
\<close>

lemma later_verification_keeps_flag:
  assumes "fst (canUseLocalStorage env s)"
    and "verification_throws env LocalStorage (snd (canUseLocalStorage env s))"
  shows "\<exists>s'. getStorage env lg name' s = (Inr None, s')
      \<and> setStorage env lg name' data s = (Inr False, s')
      \<and> removeStorage env lg name' s = (Inr False, s')
      \<and> canUseLocalStorage env s' = (True, s')"
proof -
  obtain s0 where c: "canUseLocalStorage env s = (True, s0)"
    using assms(1) by (cases "canUseLocalStorage env s") auto
  then have f0: "canUseLocalStorage_flag s0 = Some True"
    by (auto simp: canUseLocalStorage_def Let_def split: option.splits prod.splits)
  obtain obj s1 where v: "getVerifiedStorageObject env LocalStorage s0 = (obj, s1)"
    by (cases "getVerifiedStorageObject env LocalStorage s0")
  from assms(2) c v verification_throws_None [of env LocalStorage s0] have none: "obj = None"
    by simp
  from v getVerifiedStorageObject_flag [of env LocalStorage s0] f0
  have f1: "canUseLocalStorage_flag s1 = Some True"
    by simp
  from c v none have "getLocalStorageObject env s = (None, s1)"
    by (simp add: getLocalStorageObject_def)
  with f1 show ?thesis
    by (simp add: getStorage_def setStorage_def removeStorage_def canUseLocalStorage_def)
qed



section \<open>CorrelationIdHelper.canIncludeCorrelationHeader: the value returned\<close>

text \<open>
  C1 says that \<open>canIncludeCorrelationHeader\<close> always returns true or false. On a page
  served from localhost:8080, with cross-origin correlation enabled and a list of
  excluded domains, the relative request "/api/data" makes the function return the
  empty string: the host the anchor reports contains ":80", the second parse of the
  relative URL finds no host and leaves the request host empty, no excluded domain
  matches it, and the last line returns the request host itself.
\<close>

theorem canIncludeCorrelationHeader_returns_empty_string:
  "fst (canIncludeCorrelationHeader (example_browser (\<lambda>k. False) ''localhost:8080'')
          (Some excluding_config) ''/api/data'' (Some ''localhost:8080'') initial_state)
     = Inr (JStr [])"
  by code_simp

theorem canIncludeCorrelationHeader_returns_empty_string_witness:
  "\<forall>b. fst (canIncludeCorrelationHeader (example_browser (\<lambda>k. False) ''localhost:8080'')
              (Some excluding_config) ''/api/data'' (Some ''localhost:8080'') initial_state)
         \<noteq> Inr (JBool b)"
  using canIncludeCorrelationHeader_returns_empty_string by simp

text \<open>
  C4 says that with \<^verbatim>\<open>correlationHeaderDomains\<close> given the function returns false
  unless a glob of the list matches the request host, a dot matching only a dot. The
  replacement meant to escape the dots leaves them as they are, so the dot of the
  regular expression matches any character: with the one included domain
  "my.site.com" the function returns true for the host "myxsite.com", which the glob
  does not match.
\<close>

theorem canIncludeCorrelationHeader_dot_matches_any:
  "fst (canIncludeCorrelationHeader (example_browser (\<lambda>k. False) ''localhost:8080'')
          (Some including_config) ''https://myxsite.com/track'' (Some ''localhost:8080'')
          initial_state)
     = Inr (JBool True)
   \<and> correlationHeaderDomains including_config = Some [''my.site.com'']
   \<and> \<not> glob_found ''my.site.com'' ''myxsite.com''"
  by code_simp

theorem canIncludeCorrelationHeader_dot_matches_any_witness:
  "fst (canIncludeCorrelationHeader (example_browser (\<lambda>k. False) ''localhost:8080'')
          (Some including_config) ''https://myxsite.com/track'' (Some ''localhost:8080'')
          initial_state)
     \<noteq> Inr (JBool False)"
  using canIncludeCorrelationHeader_dot_matches_any by simp


section \<open>generateIntegrityFile.js: the version gate and the mismatch\<close>

lemma match_version_number_nonempty:
  "match_version_number r = Some (d, rest) \<Longrightarrow> d \<noteq> []"
  by (auto simp: match_version_number_def Let_def split: if_splits)

lemma extractFilename_exec_version:
  "extractFilename_exec s = Some (raw, i, ver, fmt) \<Longrightarrow> \<exists>d. ver = CHR ''.'' # d \<and> d \<noteq> []"
  by (auto simp: extractFilename_exec_def Let_def
      split: if_splits option.splits prod.splits dest: match_version_number_nonempty)

lemma getFilename_match_version:
  "getFilename_match inputFile packageVersion path filename = (m, Some (raw, i, ver, fmt))
   \<Longrightarrow> ver = packageVersion \<or> (\<exists>d. ver = CHR ''.'' # d \<and> d \<noteq> [])"
  by (auto simp: getFilename_match_def Let_def split: if_splits
      dest: extractFilename_exec_version)

lemma getFilename_Names:
  assumes "getFilename inputFile packageVersion = Names n"
  shows "version n \<noteq> []" and "intFile n \<noteq> []"
  using assms
  by (auto simp: getFilename_def Let_def substring_from_1
      split: prod.splits option.splits if_splits
      dest!: getFilename_match_version)

text \<open>
  C8, as the code has it: \<open>getFilename\<close> returns a record with an \<^verbatim>\<open>intFile\<close>
  field only if the file name contains the package version after a dot, or the path
  matches \<^verbatim>\<open>isVersioned\<close> and the version extracted from it equals the package
  version, or the path does not match \<^verbatim>\<open>isVersioned\<close> and the file name ends in
  \<^verbatim>\<open>.js\<close>, a file without a version, which takes the version of the package. The
  record then carries the package version and the bare file name. A file whose path
  matches \<^verbatim>\<open>isVersioned\<close>, whose name does not contain the package version after a
  dot and whose extracted version is not the package version gets the bare file name
  alone.
\<close>

theorem getFilename_version_gate:
  "(getFilename inputFile packageVersion = Names n \<longrightarrow>
      version n = packageVersion \<and> name n = snd (split_path inputFile)
      \<and> (sublist (''.'' @ packageVersion) (snd (split_path inputFile))
         \<or> (isVersioned_test inputFile \<and> extracted_version inputFile = Some packageVersion)
         \<or> (\<not> isVersioned_test inputFile \<and> suffix ''.js'' (snd (split_path inputFile)))))
   \<and> (isVersioned_test inputFile
        \<and> \<not> sublist (''.'' @ packageVersion) (snd (split_path inputFile))
        \<and> extracted_version inputFile \<noteq> Some packageVersion \<longrightarrow>
      getFilename inputFile packageVersion = NameOnly (snd (split_path inputFile)))"
proof -
  obtain path filename where sp: "split_path inputFile = (path, filename)"
    by (cases "split_path inputFile")
  have first: "version n = packageVersion \<and> name n = filename
      \<and> (sublist (''.'' @ packageVersion) filename
         \<or> (isVersioned_test inputFile \<and> extracted_version inputFile = Some packageVersion)
         \<or> (\<not> isVersioned_test inputFile \<and> suffix ''.js'' filename))"
    if names: "getFilename inputFile packageVersion = Names n"
  proof (cases "indexOf filename (''.'' @ packageVersion) = - 1")
    case False
    then have "sublist (''.'' @ packageVersion) filename"
      by (simp add: indexOf_sublist)
    moreover from names have "version n = packageVersion \<and> name n = filename"
      by (auto simp: getFilename_def sp Let_def split: prod.splits option.splits if_splits)
    ultimately show ?thesis by simp
  next
    case none: True
    show ?thesis
    proof (cases "isVersioned_test inputFile")
      case True
      with names none sp show ?thesis
        by (auto simp: getFilename_def getFilename_match_def extracted_version_def Let_def
            substring_from_1 split: option.splits if_splits dest: extractFilename_exec_version)
    next
      case False
      with names none sp show ?thesis
        by (auto simp: getFilename_def getFilename_match_def Let_def endsWith_suffix
            split: option.splits if_splits)
    qed
  qed
  have second: "getFilename inputFile packageVersion = NameOnly filename"
    if v: "isVersioned_test inputFile"
      and no: "\<not> sublist (''.'' @ packageVersion) filename"
      and other: "extracted_version inputFile \<noteq> Some packageVersion"
  proof -
    from no have none: "indexOf filename (''.'' @ packageVersion) = - 1"
      by (simp add: indexOf_none)
    with v other sp show ?thesis
      by (auto simp: getFilename_def getFilename_match_def extracted_version_def Let_def
          substring_from_1 split: option.splits if_splits dest: extractFilename_exec_version)
  qed
  from first second sp show ?thesis by simp
qed

text \<open>
  A bundle of the package version, a file whose directory carries the version, and a
  bundle of an older version.
\<close>

theorem getFilename_version_gate_witness:
  "getFilename ''./browser/ai.2.5.6.min.js'' ''2.5.6''
     = Names \<lparr> name = ''ai.2.5.6.min.js'', module = ''ai'', version = ''2.5.6'',
                format = ''min.js'', intFile = ''./browser/ai.2.5.6.integrity.json'' \<rparr>
   \<and> sublist ''.2.5.6'' ''ai.2.5.6.min.js''
   \<and> getFilename ''./v.2.5.6.x/ai.js'' ''2.5.6''
     = Names \<lparr> name = ''ai.js'', module = ''ai.js'', version = ''2.5.6'',
                format = ''x/ai.js'', intFile = ''./v.2.5.6.integrity.json'' \<rparr>
   \<and> extracted_version ''./v.2.5.6.x/ai.js'' = Some ''2.5.6''
   \<and> isVersioned_test ''./browser/ai.2.5.5.min.js''
   \<and> extracted_version ''./browser/ai.2.5.5.min.js'' = Some ''2.5.5''
   \<and> getFilename ''./browser/ai.2.5.5.min.js'' ''2.5.6'' = NameOnly ''ai.2.5.5.min.js''"
proof -
  have a: "getFilename ''./browser/ai.2.5.6.min.js'' ''2.5.6''
     = Names \<lparr> name = ''ai.2.5.6.min.js'', module = ''ai'', version = ''2.5.6'',
                format = ''min.js'', intFile = ''./browser/ai.2.5.6.integrity.json'' \<rparr>"
    by code_simp
  have b: "getFilename ''./v.2.5.6.x/ai.js'' ''2.5.6''
     = Names \<lparr> name = ''ai.js'', module = ''ai.js'', version = ''2.5.6'',
                format = ''x/ai.js'', intFile = ''./v.2.5.6.integrity.json'' \<rparr>"
    by code_simp
  have b1: "snd (split_path ''./v.2.5.6.x/ai.js'') = ''ai.js''"
    by code_simp
  have b2: "indexOf ''ai.js'' ''.2.5.6'' = - 1"
    by code_simp
  have b3: "isVersioned_test ''./v.2.5.6.x/ai.js''"
    by code_simp
  have c: "isVersioned_test ''./browser/ai.2.5.5.min.js''"
    by code_simp
  have c1: "snd (split_path ''./browser/ai.2.5.5.min.js'') = ''ai.2.5.5.min.js''"
    by code_simp
  have c2: "indexOf ''ai.2.5.5.min.js'' ''.2.5.6'' = - 1"
    by code_simp
  have c3: "extracted_version ''./browser/ai.2.5.5.min.js'' = Some ''2.5.5''"
    by code_simp
  have d: "indexOf ''ai.2.5.6.min.js'' ''.2.5.6'' \<noteq> - 1"
    by code_simp
  have d1: "sublist ''.2.5.6'' ''ai.2.5.6.min.js''"
    using d by (simp only: indexOf_sublist)
  have b4: "extracted_version ''./v.2.5.6.x/ai.js'' = Some ''2.5.6''"
    using getFilename_version_gate [of "''./v.2.5.6.x/ai.js''" "''2.5.6''"] b b1 b2 b3
    by (simp add: indexOf_sublist [symmetric] del: isVersioned_test.simps indexOf.simps)
  have c4: "getFilename ''./browser/ai.2.5.5.min.js'' ''2.5.6'' = NameOnly ''ai.2.5.5.min.js''"
    using getFilename_version_gate [of "''./browser/ai.2.5.5.min.js''" "''2.5.6''"] c c1 c2 c3
    by (simp add: indexOf_sublist [symmetric] del: isVersioned_test.simps indexOf.simps)
  from a d1 b b4 c c3 c4 show ?thesis by simp
qed

text \<open>
  With the version extracted from the file name as the only gate, the rule fails: a
  file with no version in its name gets an \<^verbatim>\<open>intFile\<close>, and so does a bundle of
  version 2.5.60 when the package version is 2.5.6.
\<close>

theorem getFilename_version_counterexample:
  "getFilename ''./browser/ai.js'' ''2.5.6''
     = Names \<lparr> name = ''ai.js'', module = ''ai'', version = ''2.5.6'',
                format = ''js'', intFile = ''./browser/ai.integrity.json'' \<rparr>
   \<and> extracted_version ''./browser/ai.js'' = None
   \<and> getFilename ''./browser/ai.2.5.60.js'' ''2.5.6''
     = Names \<lparr> name = ''ai.2.5.60.js'', module = ''ai'', version = ''2.5.6'',
                format = ''js'', intFile = ''./browser/ai.2.5.6.integrity.json'' \<rparr>
   \<and> extracted_version ''./browser/ai.2.5.60.js'' = Some ''2.5.60''"
  by code_simp

text \<open>
  The second part needs the match with \<^verbatim>\<open>isVersioned\<close>, in which a dot of the pattern
  matches no line break: a path with a line break before its version is not taken as
  versioned, and as its name ends in \<^verbatim>\<open>.js\<close> it takes the version of the package.
\<close>

lemma getFilename_line_break:
  "extracted_version (''a'' @ [CHR 0x0A] @ ''.1.2.3.js'') = Some ''1.2.3''
   \<and> \<not> isVersioned_test (''a'' @ [CHR 0x0A] @ ''.1.2.3.js'')
   \<and> getFilename (''a'' @ [CHR 0x0A] @ ''.1.2.3.js'') ''9.9.9''
     = Names \<lparr> name = ''a'' @ [CHR 0x0A] @ ''.1.2.3.js'', module = ''a'' @ [CHR 0x0A],
                version = ''9.9.9'', format = ''1.2.3.js'',
                intFile = ''/a'' @ [CHR 0x0A] @ ''.integrity.json'' \<rparr>"
  by code_simp


lemma example_first_file:
  "getFilename ''./browser/ai.2.5.6.js'' ''2.5.6''
     = Names \<lparr> name = ''ai.2.5.6.js'', module = ''ai'', version = ''2.5.6'',
                format = ''js'', intFile = ''./browser/ai.2.5.6.integrity.json'' \<rparr>"
  by code_simp

lemma example_second_file:
  "getFilename ''./browser/ai.2.5.6.2.5.6.js'' ''2.5.6''
     = Names \<lparr> name = ''ai.2.5.6.2.5.6.js'', module = ''ai.2.5.6'', version = ''2.5.6'',
                format = ''2.5.6.js'', intFile = ''./browser/ai.2.5.6.integrity.json'' \<rparr>"
  by code_simp


lemma example_first_record:
  "processFile (example_build files) Map.empty ''./browser/ai.2.5.6.js'' ''2.5.6''
     = Inr [''./browser/ai.2.5.6.integrity.json'' \<mapsto>
              \<lparr> ij_name = ''ai'', ij_version = Some ''2.5.6'',
                ij_ext = [''@js'' \<mapsto> example_details ''ai.2.5.6.js''] \<rparr>]"
  by (simp add: processFile_def Let_def example_first_file example_build_def
      calculateHash_def example_details_def)

lemma processFile_mismatch:
  assumes "getFilename inputFile v = Names n"
    and "integrityCache (intFile n) = Some cached"
    and "ij_name cached \<noteq> module n \<or> ij_version cached \<noteq> Some (version n)"
  shows "\<exists>msg. processFile env integrityCache inputFile v = Inl (Exception ''Error'' msg)"
  using assms getFilename_Names [OF assms(1)]
  by (auto simp: processFile_def Let_def)

lemma processFiles_append:
  "processFiles env c (xs @ ys) v =
     (case processFiles env c xs v of Inl e \<Rightarrow> Inl e | Inr c' \<Rightarrow> processFiles env c' ys v)"
  by (induction xs arbitrary: c) (auto split: sum.splits)

text \<open>
  C3: during a run of \<open>processPath\<close>, when a file maps to an integrity file that the
  cache already holds, from an earlier file, under another module name or another
  version, \<open>processPath\<close> throws an Error at that file; the files after it are not
  processed.
\<close>

theorem processPath_throws_on_mismatch:
  assumes "globby_sync env path = earlier @ inputFile # later"
    and "processFiles env integrityCache earlier v = Inr cache1"
    and "getFilename inputFile v = Names n"
    and "cache1 (intFile n) = Some cached"
    and "ij_name cached \<noteq> module n \<or> ij_version cached \<noteq> Some (version n)"
  shows "\<exists>msg. processPath env integrityCache path v = Inl (Exception ''Error'' msg)"
proof -
  from processFile_mismatch [where integrityCache = cache1, OF assms(3,4,5)]
  obtain msg where "processFile env cache1 inputFile v = Inl (Exception ''Error'' msg)"
    by blast
  with assms(1,2) show ?thesis
    by (simp add: processPath_def processFiles_append)
qed

text \<open>
  The clashing files: the second maps to the integrity file of the first, under the
  module name "ai.2.5.6" where the first had "ai".
\<close>

theorem processPath_throws_on_mismatch_witness:
  "globby_sync (example_build clashing_files) ''./browser/**/*.js''
     = [''./browser/ai.2.5.6.js''] @ ''./browser/ai.2.5.6.2.5.6.js'' # []
   \<and> (\<exists>cache1 n cached.
         processFiles (example_build clashing_files) Map.empty [''./browser/ai.2.5.6.js'']
             ''2.5.6''
           = Inr cache1
         \<and> getFilename ''./browser/ai.2.5.6.2.5.6.js'' ''2.5.6'' = Names n
         \<and> cache1 (intFile n) = Some cached
         \<and> ij_name cached = ''ai'' \<and> module n = ''ai.2.5.6'')
   \<and> (\<exists>msg. processPath (example_build clashing_files) Map.empty ''./browser/**/*.js''
             ''2.5.6''
           = Inl (Exception ''Error'' msg))"
proof -
  let ?env = "example_build clashing_files"
  let ?j = "\<lparr> ij_name = ''ai'', ij_version = Some ''2.5.6'',
              ij_ext = [''@js'' \<mapsto> example_details ''ai.2.5.6.js''] \<rparr>"
  let ?c1 = "[''./browser/ai.2.5.6.integrity.json'' \<mapsto> ?j]"
  let ?n = "\<lparr> name = ''ai.2.5.6.2.5.6.js'', module = ''ai.2.5.6'', version = ''2.5.6'',
                format = ''2.5.6.js'', intFile = ''./browser/ai.2.5.6.integrity.json'' \<rparr>"
  have files: "globby_sync ?env ''./browser/**/*.js''
     = [''./browser/ai.2.5.6.js''] @ ''./browser/ai.2.5.6.2.5.6.js'' # []"
    by (simp add: example_build_def clashing_files_def)
  have first: "processFiles ?env Map.empty [''./browser/ai.2.5.6.js''] ''2.5.6'' = Inr ?c1"
    by (simp add: example_first_record)
  have cached: "?c1 (intFile ?n) = Some ?j"
    by simp
  have differ: "ij_name ?j \<noteq> module ?n \<or> ij_version ?j \<noteq> Some (version ?n)"
    by simp
  have throws: "\<exists>msg. processPath ?env Map.empty ''./browser/**/*.js'' ''2.5.6''
           = Inl (Exception ''Error'' msg)"
    by (rule processPath_throws_on_mismatch
        [OF files first example_second_file cached differ])
  have hyps: "\<exists>cache1 n cached.
         processFiles ?env Map.empty [''./browser/ai.2.5.6.js''] ''2.5.6'' = Inr cache1
         \<and> getFilename ''./browser/ai.2.5.6.2.5.6.js'' ''2.5.6'' = Names n
         \<and> cache1 (intFile n) = Some cached
         \<and> ij_name cached = ''ai'' \<and> module n = ''ai.2.5.6''"
    using first example_second_file by simp
  from files hyps throws show ?thesis by blast
qed


section \<open>The integrity records at the end of a run\<close>










section \<open>More on canIncludeCorrelationHeader\<close>

lemma replace_dots_id: "replace_dots s = s"
  by (induction s) (auto simp: replace_dots_def)

lemma excludedDomains_loop_match:
  "excludedDomains_loop domains host = Inr b \<Longrightarrow> d \<in> set domains
   \<Longrightarrow> domain_regex d = Inr r \<Longrightarrow> RegExp_test r host \<Longrightarrow> b"
  by (induction domains)
    (auto simp: domain_regex_or_abort_def split: sum.splits if_splits rx_error.splits)

lemma includedDomains_forEach_no_match:
  "includedDomains_forEach domains host m0 = Inr m \<Longrightarrow> m0 \<noteq> Some True
   \<Longrightarrow> \<forall>d r. d \<in> set domains \<and> domain_regex d = Inr r \<longrightarrow> \<not> RegExp_test r host
   \<Longrightarrow> m \<noteq> Some True"
proof (induction domains arbitrary: m0)
  case Nil
  then show ?case by simp
next
  case (Cons d ds)
  from Cons.prems(1) obtain r where r: "domain_regex d = Inr r"
    by (auto simp: domain_regex_or_abort_def split: sum.splits rx_error.splits)
  with Cons.prems(3) have no: "\<not> RegExp_test r host" by auto
  from Cons.prems(1,2) r no
  have run: "includedDomains_forEach ds host (Some False) = Inr m"
    by (simp add: domain_regex_or_abort_def)
  from Cons.prems(3)
  have rest: "\<forall>d r. d \<in> set ds \<and> domain_regex d = Inr r \<longrightarrow> \<not> RegExp_test r host"
    by auto
  from Cons.IH [OF run _ rest] show ?case by simp
qed

lemma canInclude_by_domains_value:
  "canInclude_by_domains config host = Inr v \<Longrightarrow>
     v = JBool True \<or> v = JBool False \<or> (v = JStr [] \<and> host = [])"
  by (auto simp: canInclude_by_domains_def Let_def
      split: option.splits sum.splits if_splits)

text \<open>
  Whenever \<open>canIncludeCorrelationHeader\<close> returns, its value is true, false or the
  empty string.
\<close>

theorem canIncludeCorrelationHeader_value:
  assumes "canIncludeCorrelationHeader env config requestUrl currentHost s = (Inr v, s')"
  shows "v = JBool True \<or> v = JBool False \<or> v = JStr []"
  using assms
  by (auto simp: canIncludeCorrelationHeader_def Let_def
      split: if_splits option.splits prod.splits dest: canInclude_by_domains_value)

text \<open>
  What the two domain lists decide, with the regular expressions as the code builds
  them: the value is false when the included domains are given and the regular
  expression of none matches the request host, and when the regular expression of an
  excluded domain matches it.
\<close>

theorem domain_lists_decide:
  assumes "canInclude_by_domains (Some c) host = Inr v"
  shows "(correlationHeaderDomains c = Some included
           \<and> (\<forall>d r. d \<in> set included \<and> domain_regex d = Inr r \<longrightarrow> \<not> RegExp_test r host)
          \<longrightarrow> v = JBool False)
       \<and> (correlationHeaderExcludedDomains c = Some excluded
           \<and> d' \<in> set excluded \<and> domain_regex d' = Inr r' \<and> RegExp_test r' host
          \<longrightarrow> v = JBool False)"
proof (intro conjI impI)
  assume a: "correlationHeaderDomains c = Some included
           \<and> (\<forall>d r. d \<in> set included \<and> domain_regex d = Inr r \<longrightarrow> \<not> RegExp_test r host)"
  show "v = JBool False"
  proof (cases "includedDomains_forEach included host None")
    case (Inl e)
    with assms a show ?thesis by (simp add: canInclude_by_domains_def)
  next
    case (Inr m)
    with a have "m \<noteq> Some True"
      using includedDomains_forEach_no_match [of included host None m] by simp
    with assms a Inr show ?thesis by (simp add: canInclude_by_domains_def)
  qed
next
  assume b: "correlationHeaderExcludedDomains c = Some excluded
           \<and> d' \<in> set excluded \<and> domain_regex d' = Inr r' \<and> RegExp_test r' host"
  then have ne: "excluded \<noteq> []" by auto
  show "v = JBool False"
    using assms b ne excludedDomains_loop_match [of excluded host _ d' r']
    by (auto simp: canInclude_by_domains_def Let_def split: option.splits sum.splits if_splits)
qed

text \<open>The relative request of a page on port 8080: the value is the empty string.\<close>

theorem canIncludeCorrelationHeader_value_witness:
  "\<exists>v s'. canIncludeCorrelationHeader (example_browser (\<lambda>k. False) ''localhost:8080'')
              (Some excluding_config) ''/api/data'' (Some ''localhost:8080'') initial_state
            = (Inr v, s')
          \<and> (v = JBool True \<or> v = JBool False \<or> v = JStr [])"
proof -
  have run: "canIncludeCorrelationHeader (example_browser (\<lambda>k. False) ''localhost:8080'')
              (Some excluding_config) ''/api/data'' (Some ''localhost:8080'') initial_state
     = (Inr (JStr []),
        initial_state\<lparr>htmlAnchorIdx := 1,
                        htmlAnchorElement := [True, False, False, False, False]\<rparr>)"
    by code_simp
  from canIncludeCorrelationHeader_value [OF run] run show ?thesis
    by blast
qed

text \<open>
  A host that the included domain does not match, and a host that the excluded domain
  matches.
\<close>

theorem domain_lists_decide_witness:
  "canInclude_by_domains (Some including_config) ''other.org'' = Inr (JBool False)
   \<and> canInclude_by_domains (Some excluding_config) ''api.example.com'' = Inr (JBool False)"
proof -
  have inc: "correlationHeaderDomains including_config = Some [''my.site.com'']"
    by (simp add: including_config_def)
  have exc: "correlationHeaderExcludedDomains excluding_config = Some [''example.com'']"
    by (simp add: excluding_config_def)
  have no: "\<forall>d r. d \<in> set [''my.site.com''] \<and> domain_regex d = Inr r
      \<longrightarrow> \<not> RegExp_test r ''other.org''"
  proof (intro allI impI)
    fix d r
    assume "d \<in> set [''my.site.com''] \<and> domain_regex d = Inr r"
    then have r: "domain_regex ''my.site.com'' = Inr r" by auto
    have "case domain_regex ''my.site.com'' of
            Inl e \<Rightarrow> True | Inr r \<Rightarrow> \<not> RegExp_test r ''other.org''"
      by code_simp
    with r show "\<not> RegExp_test r ''other.org''" by simp
  qed
  let ?r = "[One (Lit CHR ''e''), One (Lit CHR ''x''), One (Lit CHR ''a''), One (Lit CHR ''m''),
             One (Lit CHR ''p''), One (Lit CHR ''l''), One (Lit CHR ''e''), One AnyChar,
             One (Lit CHR ''c''), One (Lit CHR ''o''), One (Lit CHR ''m'')]"
  have r: "domain_regex ''example.com'' = Inr ?r"
    by code_simp
  have yes: "RegExp_test ?r ''api.example.com''"
    by code_simp
  have v: "canInclude_by_domains (Some including_config) ''other.org'' = Inr (JBool False)"
    by code_simp
  have w: "canInclude_by_domains (Some excluding_config) ''api.example.com''
      = Inr (JBool False)"
    by code_simp
  from domain_lists_decide [OF v, of "[''my.site.com'']"] inc no
  have "JBool False = JBool False" by blast
  moreover
  from domain_lists_decide [OF w, of _ "[''example.com'']" "''example.com''" ?r] exc r yes
  have "JBool False = JBool False" by simp
  ultimately show ?thesis using v w by simp
qed

text \<open>
  The replacement of the dots changes nothing: the regular expression of a domain is
  built from the domain in lower case with each star replaced, and its dots match any
  character.
\<close>

theorem domain_regex_keeps_dots:
  "domain_regex domain = RegExp_new (replace_stars (toLowerCase domain))"
  by (simp add: domain_regex_def replace_dots_id)

theorem domain_regex_keeps_dots_witness:
  "domain_regex ''a.B'' = Inr [One (Lit CHR ''a''), One AnyChar, One (Lit CHR ''b'')]"
proof -
  have "RegExp_new (replace_stars (toLowerCase ''a.B''))
      = Inr [One (Lit CHR ''a''), One AnyChar, One (Lit CHR ''b'')]"
    by code_simp
  then show ?thesis
    by (simp add: domain_regex_keeps_dots)
qed


end
